theory Spec2Isabelle
  imports
    Main
    "HOL-Library.Char_ord"
    "HOL-Library.List_Lexorder"
    "HOL-Library.Product_Lexorder"
    "HOL-Library.Multiset"
begin

section \<open>Values: JSON on the JavaScript side, text on the SQL side\<close>

text \<open>
  The request body is the object that \<^verbatim>\<open>express.json()\<close> parsed. Its fields are
  JavaScript values; the handlers only test them for truthiness, compare them with
  \<^verbatim>\<open>===\<close> and hand them to the driver as query parameters. Scalars are modelled;
  a number is an integer of magnitude below \<open>2 ^ 53\<close>, which the runtime holds exactly
  and prints in full. A field that the body does not have reads as \<open>JUndefined\<close>.
\<close>

datatype jsval = JUndefined | JNull | JBool bool | JNum int | JStr string

fun truthy :: "jsval \<Rightarrow> bool" where
  "truthy JUndefined = False"
| "truthy JNull = False"
| "truthy (JBool b) = b"
| "truthy (JNum n) = (n \<noteq> 0)"
| "truthy (JStr s) = (s \<noteq> [])"

text \<open>JavaScript's \<^verbatim>\<open>a || b\<close>.\<close>

definition js_or :: "jsval \<Rightarrow> jsval \<Rightarrow> jsval" where
  "js_or a b = (if truthy a then a else b)"

text \<open>Decimal text of a number, as \<^verbatim>\<open>Number.prototype.toString\<close> gives it for an integer.\<close>

function texto_de_nat :: "nat \<Rightarrow> string" where
  "texto_de_nat n =
     (if n < 10 then [''0123456789'' ! n]
      else texto_de_nat (n div 10) @ [''0123456789'' ! (n mod 10)])"
  by pat_completeness auto
termination
  by (relation "measure id") auto

declare texto_de_nat.simps [simp del]

definition texto_de_int :: "int \<Rightarrow> string" where
  "texto_de_int k = (if k < 0 then CHR ''-'' # texto_de_nat (nat (- k)) else texto_de_nat (nat k))"

text \<open>The text of a value inside a template literal.\<close>

fun js_String :: "jsval \<Rightarrow> string" where
  "js_String JUndefined = ''undefined''"
| "js_String JNull = ''null''"
| "js_String (JBool b) = (if b then ''true'' else ''false'')"
| "js_String (JNum n) = texto_de_int n"
| "js_String (JStr s) = s"

text \<open>
  The driver's \<^verbatim>\<open>prepareValue\<close>: \<^verbatim>\<open>undefined\<close> and \<^verbatim>\<open>null\<close> become SQL NULL
  (\<open>None\<close>), every other scalar is sent as its text. The table declarations are not part
  of the source, so a column holds the text that was sent and the store compares and
  orders it as text; for the ISO spellings (\<^verbatim>\<open>2025-06-01\<close>, \<^verbatim>\<open>10:00\<close>) this agrees
  with date and time columns.
\<close>

type_synonym sqltext = "string option"

fun prepareValue :: "jsval \<Rightarrow> sqltext" where
  "prepareValue JUndefined = None"
| "prepareValue JNull = None"
| "prepareValue (JBool b) = Some (if b then ''true'' else ''false'')"
| "prepareValue (JNum n) = Some (texto_de_int n)"
| "prepareValue (JStr s) = Some s"

text \<open>
  SQL comparisons inside a WHERE clause. A comparison with NULL is unknown and the row
  is not selected, so each function is true only where SQL yields TRUE.
\<close>

fun sql_eq :: "sqltext \<Rightarrow> sqltext \<Rightarrow> bool" where
  "sql_eq (Some a) (Some b) = (a = b)"
| "sql_eq _ _ = False"

fun sql_ne :: "sqltext \<Rightarrow> sqltext \<Rightarrow> bool" where
  "sql_ne (Some a) (Some b) = (a \<noteq> b)"
| "sql_ne _ _ = False"

fun sql_ge :: "sqltext \<Rightarrow> sqltext \<Rightarrow> bool" where
  "sql_ge (Some a) (Some b) = (b \<le> a)"
| "sql_ge _ _ = False"

text \<open>Sort key of an ascending ORDER BY column: NULLs come last.\<close>

fun clave_orden :: "sqltext \<Rightarrow> bool \<times> string" where
  "clave_orden None = (True, [])"
| "clave_orden (Some s) = (False, s)"

text \<open>
  A path parameter compared with the integer key column \<^verbatim>\<open>id\<close>, read as the
  engine's integer input reads decimal text: blanks around it, an optional sign,
  decimal digits, and a value within the range of a 4-byte integer. Any other text
  makes the query fail (invalid input syntax, or out of range). The hexadecimal,
  octal, binary and underscore spellings that newer engines add are not read as keys;
  no statement below depends on their being refused.
\<close>

definition es_cifra :: "char \<Rightarrow> bool" where
  "es_cifra c = (c \<in> set ''0123456789'')"

definition valor_cifra :: "char \<Rightarrow> nat" where
  "valor_cifra c = (of_char c :: nat) - 48"

definition es_blanco :: "char \<Rightarrow> bool" where
  "es_blanco c = (c \<in> set [CHR '' '', CHR 0x09, CHR 0x0A, CHR 0x0B, CHR 0x0C, CHR 0x0D])"

definition parse_id :: "string \<Rightarrow> int option" where
  "parse_id s =
     (let t = dropWhile es_blanco s;
          neg = (case t of [] \<Rightarrow> False | c # r \<Rightarrow> c = CHR ''-'');
          u = (case t of [] \<Rightarrow> [] | c # r \<Rightarrow> if c = CHR ''-'' \<or> c = CHR ''+'' then r else t);
          ds = takeWhile es_cifra u;
          fin = dropWhile es_blanco (dropWhile es_cifra u);
          n = int (foldl (\<lambda>a c. 10 * a + valor_cifra c) 0 ds);
          v = (if neg then - n else n)
      in if ds \<noteq> [] \<and> fin = [] \<and> - 2147483648 \<le> v \<and> v \<le> 2147483647
         then Some v else None)"

section \<open>The store and the router\<close>

text \<open>
  A table is the list of its rows, \<open>secuencia\<close> is the next value of the key sequence.
  \<open>averia\<close> is \<open>Some msg\<close> while the storage engine rejects every query with that
  message (the \<^verbatim>\<open>catch\<close> branches of the handlers), \<open>None\<close> while it answers.
\<close>

record 'r bd =
  filas :: "'r list"
  secuencia :: nat
  averia :: "string option"

datatype excepcion = ErrorBD string

definition pool_query :: "'r bd \<Rightarrow> 'a \<Rightarrow> excepcion + 'a" where
  "pool_query b resultado = (case averia b of Some m \<Rightarrow> Inl (ErrorBD m) | None \<Rightarrow> Inr resultado)"

definition error_id :: "string \<Rightarrow> excepcion" where
  "error_id s = ErrorBD (''invalid input syntax for type integer: '' @ s)"

datatype metodo = GET | POST | PUT | DELETE | PATCH

text \<open>
  A request: method, path, parsed body. The path is the text after its leading slash,
  split at the slashes, so that \<^verbatim>\<open>/api/citas/\<close> is the three segments \<^verbatim>\<open>api\<close>,
  \<^verbatim>\<open>citas\<close> and the empty one; the segment of a parameter is already URL-decoded. A
  route pattern is a list of literal segments and parameters. As Express matches by
  default, a literal is compared without regard to the case of letters, a parameter
  matches one non-empty segment, and one slash after the last segment is allowed.
  Express tries the routes in the order of their registration and the first one that
  matches answers (no handler of the source calls \<^verbatim>\<open>next\<close>). The OPTIONS and HEAD
  methods, which the framework and the CORS middleware answer themselves, are left
  out.
\<close>

record 'b peticion =
  metodo_http :: metodo
  ruta :: "string list"
  cuerpo :: 'b

datatype segmento = Lit string | Param

definition minuscula :: "char \<Rightarrow> char" where
  "minuscula c =
     (case map_of (zip ''ABCDEFGHIJKLMNOPQRSTUVWXYZ'' ''abcdefghijklmnopqrstuvwxyz'') c of
        Some d \<Rightarrow> d
      | None \<Rightarrow> c)"

text \<open>
  No route of the source has more than one parameter, so a match yields the text of
  that parameter (the empty text for a pattern without one).
\<close>

fun coincide :: "segmento list \<Rightarrow> string list \<Rightarrow> string option" where
  "coincide [] ss = (if ss = [] \<or> ss = [[]] then Some [] else None)"
| "coincide (Lit l # ps) (s # ss) =
     (if map minuscula s = map minuscula l then coincide ps ss else None)"
| "coincide (Param # ps) (s # ss) =
     (if s = [] then None else (case coincide ps ss of None \<Rightarrow> None | Some _ \<Rightarrow> Some s))"
| "coincide (p # ps) [] = None"

fun despachar ::
  "(metodo \<times> segmento list \<times> (string \<Rightarrow> 'h)) list \<Rightarrow> metodo \<Rightarrow> string list \<Rightarrow> 'h option" where
  "despachar [] m p = None"
| "despachar ((m', pat, h) # rs) m p =
     (if m = m' then (case coincide pat p of Some v \<Rightarrow> Some (h v) | None \<Rightarrow> despachar rs m p)
      else despachar rs m p)"

text \<open>
  A query keyed by a path parameter: it fails while the engine is down and on a
  parameter that is not a key, otherwise it runs with the key.
\<close>

definition con_id :: "'r bd \<Rightarrow> string \<Rightarrow> (int \<Rightarrow> 'a) \<Rightarrow> excepcion + 'a" where
  "con_id b s f =
     (case averia b of
        Some m \<Rightarrow> Inl (ErrorBD m)
      | None \<Rightarrow> (case parse_id s of None \<Rightarrow> Inl (error_id s) | Some i \<Rightarrow> Inr (f i)))"

section \<open>server.js: appointments with a status (table citas)\<close>

text \<open>
  Modelled from the spec: the declaration of the table \<^verbatim>\<open>citas\<close>, which is not in
  the source. The columns are those that the queries of server.js name. The key is a
  4-byte integer assigned by the store on creation (the next value of a sequence); the contact
  attributes, date, time, reason, notes and status hold text or NULL; the update
  timestamp holds an instant or NULL.
\<close>

record cita =
  id_cita :: int
  nombre :: sqltext
  apellido :: sqltext
  email :: sqltext
  telefono :: sqltext
  fecha :: sqltext
  hora :: sqltext
  motivo :: sqltext
  notas :: sqltext
  estado :: sqltext
  fecha_actualizacion :: "int option"

record cuerpo_cita =
  b_nombre :: jsval
  b_apellido :: jsval
  b_email :: jsval
  b_telefono :: jsval
  b_fecha :: jsval
  b_hora :: jsval
  b_motivo :: jsval
  b_notas :: jsval
  b_estado :: jsval

text \<open>
  What the database server and the clock supply during one request:
  \<^verbatim>\<open>CURRENT_TIMESTAMP\<close>, \<^verbatim>\<open>CURRENT_DATE\<close> (as text), the value that the table
  gives \<^verbatim>\<open>fecha_actualizacion\<close> in a row inserted without it (the INSERT of the
  source does not name the column), and the JavaScript clock.
\<close>

record contexto =
  current_timestamp :: int
  current_date :: string
  defecto_actualizacion :: "int option"
  reloj :: int

datatype contenido =
    Filas "cita list"
  | Fila cita
  | ErrorJson string
  | Cancelada string cita
  | Salud int
  | Bienvenida
  | SinRuta

record respuesta =
  estado_http :: nat
  json :: contenido

definition responder :: "nat \<Rightarrow> contenido \<Rightarrow> respuesta" where
  "responder c j = \<lparr>estado_http = c, json = j\<rparr>"

definition orden_fecha_hora :: "cita \<Rightarrow> (bool \<times> string) \<times> (bool \<times> string)" where
  "orden_fecha_hora r = (clave_orden (fecha r), clave_orden (hora r))"

text \<open>GET /api/citas\<close>

definition server_get_citas :: "cita bd \<Rightarrow> respuesta \<times> cita bd" where
  "server_get_citas b =
     (case pool_query b (sort_key orden_fecha_hora (filas b)) of
        Inl e \<Rightarrow> (responder 500 (ErrorJson ''Error al obtener las citas''), b)
      | Inr rows \<Rightarrow> (responder 200 (Filas rows), b))"

text \<open>GET /api/citas/:id\<close>

definition server_get_cita :: "string \<Rightarrow> cita bd \<Rightarrow> respuesta \<times> cita bd" where
  "server_get_cita idp b =
     (case con_id b idp (\<lambda>i. filter (\<lambda>r. id_cita r = i) (filas b)) of
        Inl e \<Rightarrow> (responder 500 (ErrorJson ''Error al obtener la cita''), b)
      | Inr [] \<Rightarrow> (responder 404 (ErrorJson ''Cita no encontrada''), b)
      | Inr (r # rs) \<Rightarrow> (responder 200 (Fila r), b))"

text \<open>POST /api/citas: validation, conflict query, insertion.\<close>

definition ocupan :: "cita bd \<Rightarrow> sqltext \<Rightarrow> sqltext \<Rightarrow> sqltext \<Rightarrow> cita list" where
  "ocupan b p1 p2 p3 =
     filter (\<lambda>r. sql_eq (fecha r) p1 \<and> sql_eq (hora r) p2 \<and> sql_ne (estado r) p3) (filas b)"

definition nueva_cita :: "contexto \<Rightarrow> int \<Rightarrow> sqltext list \<Rightarrow> cita" where
  "nueva_cita ctx k ps =
     \<lparr>id_cita = k, nombre = ps ! 0, apellido = ps ! 1, email = ps ! 2, telefono = ps ! 3,
      fecha = ps ! 4, hora = ps ! 5, motivo = ps ! 6, notas = ps ! 7, estado = ps ! 8,
      fecha_actualizacion = defecto_actualizacion ctx\<rparr>"

definition insertar_cita :: "contexto \<Rightarrow> cita bd \<Rightarrow> sqltext list \<Rightarrow> excepcion + cita \<times> cita bd" where
  "insertar_cita ctx b ps =
     (let r = nueva_cita ctx (int (secuencia b)) ps
      in pool_query b (r, b\<lparr>filas := filas b @ [r], secuencia := Suc (secuencia b)\<rparr>))"

definition server_post_citas :: "contexto \<Rightarrow> cuerpo_cita \<Rightarrow> cita bd \<Rightarrow> respuesta \<times> cita bd" where
  "server_post_citas ctx body b =
     (if \<not> truthy (b_nombre body) \<or> \<not> truthy (b_apellido body) \<or> \<not> truthy (b_email body)
         \<or> \<not> truthy (b_telefono body) \<or> \<not> truthy (b_fecha body) \<or> \<not> truthy (b_hora body)
         \<or> \<not> truthy (b_motivo body)
      then (responder 400 (ErrorJson ''Faltan campos requeridos''), b)
      else
        (case pool_query b
                (ocupan b (prepareValue (b_fecha body)) (prepareValue (b_hora body))
                   (prepareValue (JStr ''cancelada''))) of
           Inl e \<Rightarrow> (responder 500 (ErrorJson ''Error al crear la cita''), b)
         | Inr existente \<Rightarrow>
             if length existente > 0
             then (responder 409 (ErrorJson ''Ya existe una cita en ese horario''), b)
             else
               (case insertar_cita ctx b
                       (map prepareValue
                          [b_nombre body, b_apellido body, b_email body, b_telefono body,
                           b_fecha body, b_hora body, b_motivo body,
                           js_or (b_notas body) JNull, JStr ''confirmada'']) of
                  Inl e \<Rightarrow> (responder 500 (ErrorJson ''Error al crear la cita''), b)
                | Inr (r, b') \<Rightarrow> (responder 201 (Fila r), b'))))"

text \<open>PUT /api/citas/:id: every column of the row is overwritten from the body.\<close>

definition reemplazar :: "contexto \<Rightarrow> sqltext list \<Rightarrow> cita \<Rightarrow> cita" where
  "reemplazar ctx ps r =
     r\<lparr>nombre := ps ! 0, apellido := ps ! 1, email := ps ! 2, telefono := ps ! 3,
       fecha := ps ! 4, hora := ps ! 5, motivo := ps ! 6, notas := ps ! 7, estado := ps ! 8,
       fecha_actualizacion := Some (current_timestamp ctx)\<rparr>"

text \<open>
  \<^verbatim>\<open>UPDATE citas SET ... WHERE id = $n RETURNING *\<close>: the rows with that key are
  changed in place and returned.
\<close>

definition update_donde_id ::
  "cita bd \<Rightarrow> string \<Rightarrow> (cita \<Rightarrow> cita) \<Rightarrow> excepcion + cita list \<times> cita bd" where
  "update_donde_id b idp f =
     con_id b idp
       (\<lambda>i. (map f (filter (\<lambda>r. id_cita r = i) (filas b)),
             b\<lparr>filas := map (\<lambda>r. if id_cita r = i then f r else r) (filas b)\<rparr>))"

definition server_put_cita ::
  "contexto \<Rightarrow> string \<Rightarrow> cuerpo_cita \<Rightarrow> cita bd \<Rightarrow> respuesta \<times> cita bd" where
  "server_put_cita ctx idp body b =
     (case update_donde_id b idp
             (reemplazar ctx
                (map prepareValue
                   [b_nombre body, b_apellido body, b_email body, b_telefono body,
                    b_fecha body, b_hora body, b_motivo body, b_notas body, b_estado body])) of
        Inl e \<Rightarrow> (responder 500 (ErrorJson ''Error al actualizar la cita''), b)
      | Inr ([], b') \<Rightarrow> (responder 404 (ErrorJson ''Cita no encontrada''), b')
      | Inr (r # rs, b') \<Rightarrow> (responder 200 (Fila r), b'))"

text \<open>DELETE /api/citas/:id: the row stays, its status becomes \<^verbatim>\<open>cancelada\<close>.\<close>

definition cancelar :: "contexto \<Rightarrow> cita \<Rightarrow> cita" where
  "cancelar ctx r =
     r\<lparr>estado := Some ''cancelada'', fecha_actualizacion := Some (current_timestamp ctx)\<rparr>"

definition server_delete_cita :: "contexto \<Rightarrow> string \<Rightarrow> cita bd \<Rightarrow> respuesta \<times> cita bd" where
  "server_delete_cita ctx idp b =
     (case update_donde_id b idp (cancelar ctx) of
        Inl e \<Rightarrow> (responder 500 (ErrorJson ''Error al cancelar la cita''), b)
      | Inr ([], b') \<Rightarrow> (responder 404 (ErrorJson ''Cita no encontrada''), b')
      | Inr (r # rs, b') \<Rightarrow> (responder 200 (Cancelada ''Cita cancelada exitosamente'' r), b'))"

text \<open>GET /api/citas/fecha/:fecha\<close>

definition server_get_citas_fecha :: "string \<Rightarrow> cita bd \<Rightarrow> respuesta \<times> cita bd" where
  "server_get_citas_fecha f b =
     (case pool_query b
             (sort_key (\<lambda>r. clave_orden (hora r))
                (filter (\<lambda>r. sql_eq (fecha r) (Some f)) (filas b))) of
        Inl e \<Rightarrow> (responder 500 (ErrorJson ''Error al obtener las citas''), b)
      | Inr rows \<Rightarrow> (responder 200 (Filas rows), b))"

text \<open>GET /api/citas/pendientes\<close>

definition server_get_citas_pendientes :: "contexto \<Rightarrow> cita bd \<Rightarrow> respuesta \<times> cita bd" where
  "server_get_citas_pendientes ctx b =
     (case pool_query b
             (sort_key orden_fecha_hora
                (filter (\<lambda>r. sql_ge (fecha r) (Some (current_date ctx))
                              \<and> sql_eq (estado r) (Some ''confirmada'')) (filas b))) of
        Inl e \<Rightarrow> (responder 500 (ErrorJson ''Error al obtener las citas pendientes''), b)
      | Inr rows \<Rightarrow> (responder 200 (Filas rows), b))"

text \<open>
  The application: the routes in the order in which server.js registers them. A request
  that no route matches gets the framework's 404.
\<close>

type_synonym manejador = "contexto \<Rightarrow> cuerpo_cita \<Rightarrow> cita bd \<Rightarrow> respuesta \<times> cita bd"

definition server_rutas :: "(metodo \<times> segmento list \<times> (string \<Rightarrow> manejador)) list" where
  "server_rutas =
     [(GET, [Lit ''api'', Lit ''citas''], \<lambda>v ctx body. server_get_citas),
      (GET, [Lit ''api'', Lit ''citas'', Param], \<lambda>v ctx body. server_get_cita v),
      (POST, [Lit ''api'', Lit ''citas''], \<lambda>v ctx body. server_post_citas ctx body),
      (PUT, [Lit ''api'', Lit ''citas'', Param], \<lambda>v ctx body. server_put_cita ctx v body),
      (DELETE, [Lit ''api'', Lit ''citas'', Param], \<lambda>v ctx body. server_delete_cita ctx v),
      (GET, [Lit ''api'', Lit ''citas'', Lit ''fecha'', Param], \<lambda>v ctx body. server_get_citas_fecha v),
      (GET, [Lit ''api'', Lit ''citas'', Lit ''pendientes''],
         \<lambda>v ctx body. server_get_citas_pendientes ctx),
      (GET, [Lit ''health''], \<lambda>v ctx body b. (responder 200 (Salud (reloj ctx)), b)),
      (GET, [], \<lambda>v ctx body b. (responder 200 Bienvenida, b))]"

definition server_app :: "contexto \<Rightarrow> cuerpo_cita peticion \<Rightarrow> cita bd \<Rightarrow> respuesta \<times> cita bd" where
  "server_app ctx req b =
     (case despachar server_rutas (metodo_http req) (ruta req) of
        Some h \<Rightarrow> h ctx (cuerpo req) b
      | None \<Rightarrow> (responder 404 SinRuta, b))"


section \<open>The second server file: demo appointments with reminder flags (table citas_gratuitas)\<close>

subsection \<open>Date arithmetic of the JavaScript runtime\<close>

text \<open>
  A \<^verbatim>\<open>Date\<close> is its time value, the milliseconds since the epoch. \<^verbatim>\<open>getHours\<close> and
  \<^verbatim>\<open>setHours\<close> work on local time, as ECMAScript defines them: \<open>LocalTZA_utc z t\<close> is
  the host zone's offset at the instant \<open>t\<close> and \<open>LocalTZA_local z t\<close> the offset
  that the zone assigns to the local time \<open>t\<close>. \<^verbatim>\<open>TimeClip\<close> is the identity on every
  reading of the system clock and is left out.
\<close>

definition msPerDay :: int where "msPerDay = 86400000"
definition msPerHour :: int where "msPerHour = 3600000"
definition msPerMinute :: int where "msPerMinute = 60000"
definition msPerSecond :: int where "msPerSecond = 1000"

definition Day :: "int \<Rightarrow> int" where "Day t = t div msPerDay"
definition HourFromTime :: "int \<Rightarrow> int" where "HourFromTime t = (t div msPerHour) mod 24"
definition MinFromTime :: "int \<Rightarrow> int" where "MinFromTime t = (t div msPerMinute) mod 60"
definition SecFromTime :: "int \<Rightarrow> int" where "SecFromTime t = (t div msPerSecond) mod 60"
definition msFromTime :: "int \<Rightarrow> int" where "msFromTime t = t mod msPerSecond"

definition MakeTime :: "int \<Rightarrow> int \<Rightarrow> int \<Rightarrow> int \<Rightarrow> int" where
  "MakeTime h m s ms = h * msPerHour + m * msPerMinute + s * msPerSecond + ms"

definition MakeDate :: "int \<Rightarrow> int \<Rightarrow> int" where
  "MakeDate day time = day * msPerDay + time"

record zona =
  LocalTZA_utc :: "int \<Rightarrow> int"
  LocalTZA_local :: "int \<Rightarrow> int"

definition LocalTime :: "zona \<Rightarrow> int \<Rightarrow> int" where
  "LocalTime z t = t + LocalTZA_utc z t"

definition UTC :: "zona \<Rightarrow> int \<Rightarrow> int" where
  "UTC z t = t - LocalTZA_local z t"

definition getHours :: "zona \<Rightarrow> int \<Rightarrow> int" where
  "getHours z t = HourFromTime (LocalTime z t)"

definition setHours :: "zona \<Rightarrow> int \<Rightarrow> int \<Rightarrow> int" where
  "setHours z t h =
     (let tl = LocalTime z t
      in UTC z (MakeDate (Day tl) (MakeTime h (MinFromTime tl) (SecFromTime tl) (msFromTime tl))))"

subsection \<open>Rows, bodies, responses\<close>

text \<open>
  Modelled from the spec: the declaration of the table \<^verbatim>\<open>citas_gratuitas\<close>, which
  is not in the source. The fields of a row are the columns that the queries of the
  source name: the integer key assigned by the store, the contact attributes as text or NULL,
  the appointment time as an instant and the three reminder booleans. The handlers are
  written over the record scheme: its extension part stands for every further column
  of the table, which \<^verbatim>\<open>SELECT *\<close> and \<^verbatim>\<open>RETURNING *\<close> carry along.

  The messages of the responses are spelled without their accents.
\<close>

record cita_gratuita =
  id_gratuita :: int
  nombre_g :: sqltext
  email_g :: sqltext
  telefono_g :: sqltext
  fecha_cita :: int
  recordatorio_24h_enviado :: bool
  recordatorio_2h_enviado :: bool
  recordatorio_post_enviado :: bool

record cuerpo_gratuita =
  g_nombre :: jsval
  g_email :: jsval
  g_telefono :: jsval
  tipoFecha :: jsval
  tipo :: jsval

datatype respuesta_fetch =
    Rechazo string
  | Respuesta bool nat string

text \<open>
  The surroundings of one request: the JavaScript clock, the host's time zone, the
  variable \<^verbatim>\<open>N8N_WEBHOOK_URL\<close> of the process environment, what the network does with
  a \<^verbatim>\<open>fetch\<close> of a URL and payload (event, time, row), the values that the table gives
  to the columns that the INSERT does not name, and the engine's \<^verbatim>\<open>NOW()\<close>.
\<close>

record 'z entorno =
  reloj_js :: int
  zona_horaria :: zona
  N8N_WEBHOOK_URL :: "string option"
  fetch :: "string \<Rightarrow> string \<times> int \<times> 'z cita_gratuita_scheme \<Rightarrow> respuesta_fetch"
  columnas_defecto :: 'z
  now_bd :: int

datatype 'r datos = SinDatos | Una 'r | Varias "'r list"

datatype 'r contenido_g =
    Sobre bool "string option" "'r datos" "string option"
  | Conexion int
  | Diagnostico
  | Raiz bool
  | SinRuta_g

record 'r respuesta_g =
  estado_g :: nat
  json_g :: "'r contenido_g"

definition responder_g :: "nat \<Rightarrow> 'r contenido_g \<Rightarrow> 'r respuesta_g" where
  "responder_g c j = \<lparr>estado_g = c, json_g = j\<rparr>"

fun mensaje :: "excepcion \<Rightarrow> string" where
  "mensaje (ErrorBD m) = m"

definition fallo_g :: "string \<Rightarrow> excepcion \<Rightarrow> 'r respuesta_g" where
  "fallo_g m e = responder_g 500 (Sobre False (Some m) SinDatos (Some (mensaje e)))"

subsection \<open>enviarWebhookN8n\<close>

text \<open>
  The function returns the lines it wrote to the console, or throws. Its result type
  has room for an exception because the handlers await it inside their \<^verbatim>\<open>try\<close>
  block, where an exception would turn the response into a 500.
\<close>

datatype registro =
    WebhookNoConfigurado
  | EnviandoWebhook string
  | WebhookEnviado
  | ErrorWebhook nat string
  | ErrorRed string

definition enviarWebhookN8n ::
  "'z entorno \<Rightarrow> string \<Rightarrow> 'z cita_gratuita_scheme \<Rightarrow> excepcion + registro list" where
  "enviarWebhookN8n env evento datos =
     (case N8N_WEBHOOK_URL env of
        None \<Rightarrow> Inr [WebhookNoConfigurado]
      | Some webhookUrl \<Rightarrow>
          if webhookUrl = [] then Inr [WebhookNoConfigurado]
          else
            (case fetch env webhookUrl (evento, reloj_js env, datos) of
               Rechazo m \<Rightarrow> Inr [EnviandoWebhook evento, ErrorRed m]
             | Respuesta ok st txt \<Rightarrow>
                 if ok then Inr [EnviandoWebhook evento, WebhookEnviado]
                 else Inr [EnviandoWebhook evento, ErrorWebhook st txt]))"

subsection \<open>Handlers\<close>

type_synonym 'z bd_g = "'z cita_gratuita_scheme bd"
type_synonym 'z resp_g = "'z cita_gratuita_scheme respuesta_g"

text \<open>GET /api/test-connection and GET /api/diagnostico (the report itself is not modelled).\<close>

definition gratuitas_test_connection :: "'z entorno \<Rightarrow> 'z bd_g \<Rightarrow> 'z resp_g \<times> 'z bd_g" where
  "gratuitas_test_connection env b =
     (case pool_query b (now_bd env) of
        Inl e \<Rightarrow> (fallo_g ''Error al conectar con la base de datos'' e, b)
      | Inr t \<Rightarrow> (responder_g 200 (Conexion t), b))"

definition gratuitas_diagnostico :: "'z bd_g \<Rightarrow> 'z resp_g \<times> 'z bd_g" where
  "gratuitas_diagnostico b =
     (case pool_query b () of
        Inl e \<Rightarrow> (fallo_g ''Error en diagnostico'' e, b)
      | Inr u \<Rightarrow> (responder_g 200 Diagnostico, b))"

text \<open>GET /api/citas: newest appointment time first.\<close>

definition gratuitas_get_citas :: "'z bd_g \<Rightarrow> 'z resp_g \<times> 'z bd_g" where
  "gratuitas_get_citas b =
     (case pool_query b (sort_key (\<lambda>r. - fecha_cita r) (filas b)) of
        Inl e \<Rightarrow> (fallo_g ''Error al obtener las citas'' e, b)
      | Inr rows \<Rightarrow> (responder_g 200 (Sobre True None (Varias rows) None), b))"

text \<open>POST /api/citas\<close>

definition calcular_fechaCita :: "zona \<Rightarrow> int \<Rightarrow> jsval \<Rightarrow> int option" where
  "calcular_fechaCita z fechaCita tf =
     (if tf = JStr ''24h'' then Some (setHours z fechaCita (getHours z fechaCita + 24))
      else if tf = JStr ''2h'' then Some (setHours z fechaCita (getHours z fechaCita + 2))
      else if tf = JStr ''1h_pasado'' then Some (setHours z fechaCita (getHours z fechaCita - 1))
      else None)"

definition insertar_gratuita ::
  "'z entorno \<Rightarrow> 'z bd_g \<Rightarrow> sqltext \<Rightarrow> sqltext \<Rightarrow> sqltext \<Rightarrow> int
     \<Rightarrow> excepcion + 'z cita_gratuita_scheme \<times> 'z bd_g" where
  "insertar_gratuita env b p1 p2 p3 p4 =
     (let r = \<lparr>id_gratuita = int (secuencia b), nombre_g = p1, email_g = p2, telefono_g = p3,
                fecha_cita = p4, recordatorio_24h_enviado = False,
                recordatorio_2h_enviado = False, recordatorio_post_enviado = False,
                \<dots> = columnas_defecto env\<rparr>
      in pool_query b (r, b\<lparr>filas := filas b @ [r], secuencia := Suc (secuencia b)\<rparr>))"

definition gratuitas_post_citas ::
  "'z entorno \<Rightarrow> cuerpo_gratuita \<Rightarrow> 'z bd_g \<Rightarrow> 'z resp_g \<times> 'z bd_g" where
  "gratuitas_post_citas env body b =
     (if \<not> truthy (g_nombre body) \<or> \<not> truthy (g_email body) \<or> \<not> truthy (g_telefono body)
         \<or> \<not> truthy (tipoFecha body)
      then (responder_g 400 (Sobre False (Some ''Faltan campos requeridos'') SinDatos None), b)
      else
        (case calcular_fechaCita (zona_horaria env) (reloj_js env) (tipoFecha body) of
           None \<Rightarrow> (responder_g 400 (Sobre False (Some ''Tipo de fecha invalido'') SinDatos None), b)
         | Some fechaCita \<Rightarrow>
             (case insertar_gratuita env b (prepareValue (g_nombre body))
                     (prepareValue (g_email body)) (prepareValue (g_telefono body)) fechaCita of
                Inl e \<Rightarrow> (fallo_g ''Error al crear la cita'' e, b)
              | Inr (citaCreada, b') \<Rightarrow>
                  (case enviarWebhookN8n env ''cita_creada'' citaCreada of
                     Inl e \<Rightarrow> (fallo_g ''Error al crear la cita'' e, b')
                   | Inr consola \<Rightarrow>
                       (responder_g 201
                          (Sobre True (Some ''Cita creada exitosamente'') (Una citaCreada) None),
                        b')))))"

text \<open>DELETE /api/citas/:id: the row is removed.\<close>

definition gratuitas_delete_cita ::
  "'z entorno \<Rightarrow> string \<Rightarrow> 'z bd_g \<Rightarrow> 'z resp_g \<times> 'z bd_g" where
  "gratuitas_delete_cita env idp b =
     (case con_id b idp
             (\<lambda>i. (filter (\<lambda>r. id_gratuita r = i) (filas b),
                   b\<lparr>filas := filter (\<lambda>r. id_gratuita r \<noteq> i) (filas b)\<rparr>)) of
        Inl e \<Rightarrow> (fallo_g ''Error al eliminar la cita'' e, b)
      | Inr ([], b') \<Rightarrow>
          (responder_g 404 (Sobre False (Some ''Cita no encontrada'') SinDatos None), b')
      | Inr (citaEliminada # rs, b') \<Rightarrow>
          (case enviarWebhookN8n env ''cita_eliminada'' citaEliminada of
             Inl e \<Rightarrow> (fallo_g ''Error al eliminar la cita'' e, b')
           | Inr consola \<Rightarrow>
               (responder_g 200
                  (Sobre True (Some ''Cita eliminada exitosamente'') (Una citaEliminada) None),
                b')))"

text \<open>
  \<^verbatim>\<open>UPDATE public.citas_gratuitas SET ... WHERE id = $1 RETURNING *\<close>
\<close>

definition update_gratuita_donde_id ::
  "'z bd_g \<Rightarrow> string \<Rightarrow> ('z cita_gratuita_scheme \<Rightarrow> 'z cita_gratuita_scheme)
     \<Rightarrow> excepcion + 'z cita_gratuita_scheme list \<times> 'z bd_g" where
  "update_gratuita_donde_id b idp f =
     con_id b idp
       (\<lambda>i. (map f (filter (\<lambda>r. id_gratuita r = i) (filas b)),
             b\<lparr>filas := map (\<lambda>r. if id_gratuita r = i then f r else r) (filas b)\<rparr>))"

definition reset_flags :: "'z cita_gratuita_scheme \<Rightarrow> 'z cita_gratuita_scheme" where
  "reset_flags r =
     r\<lparr>recordatorio_24h_enviado := False, recordatorio_2h_enviado := False,
       recordatorio_post_enviado := False\<rparr>"

text \<open>PATCH /api/citas/:id/reset-flags\<close>

definition gratuitas_reset_flags :: "string \<Rightarrow> 'z bd_g \<Rightarrow> 'z resp_g \<times> 'z bd_g" where
  "gratuitas_reset_flags idp b =
     (case update_gratuita_donde_id b idp reset_flags of
        Inl e \<Rightarrow> (fallo_g ''Error al resetear los flags'' e, b)
      | Inr ([], b') \<Rightarrow>
          (responder_g 404 (Sobre False (Some ''Cita no encontrada'') SinDatos None), b')
      | Inr (r # rs, b') \<Rightarrow>
          (responder_g 200 (Sobre True (Some ''Flags reseteados exitosamente'') (Una r) None), b'))"

text \<open>
  PATCH /api/citas/:id/marcar-recordatorio. The column name is spliced into the
  statement; a name that is not a column of the table makes the statement fail.
\<close>

definition set_true :: "string \<Rightarrow> ('z cita_gratuita_scheme \<Rightarrow> 'z cita_gratuita_scheme) option" where
  "set_true columna =
     (if columna = ''recordatorio_24h_enviado'' then Some (\<lambda>r. r\<lparr>recordatorio_24h_enviado := True\<rparr>)
      else if columna = ''recordatorio_2h_enviado'' then Some (\<lambda>r. r\<lparr>recordatorio_2h_enviado := True\<rparr>)
      else if columna = ''recordatorio_post_enviado'' then Some (\<lambda>r. r\<lparr>recordatorio_post_enviado := True\<rparr>)
      else None)"

definition gratuitas_marcar_recordatorio ::
  "string \<Rightarrow> cuerpo_gratuita \<Rightarrow> 'z bd_g \<Rightarrow> 'z resp_g \<times> 'z bd_g" where
  "gratuitas_marcar_recordatorio idp body b =
     (if \<not> truthy (tipo body) \<or> tipo body \<notin> set [JStr ''24h'', JStr ''2h'', JStr ''post'']
      then (responder_g 400
              (Sobre False (Some ''Tipo de recordatorio invalido. Debe ser: 24h, 2h o post'')
                 SinDatos None), b)
      else
        (let columna = ''recordatorio_''
               @ (if tipo body = JStr ''24h'' then ''24h''
                  else if tipo body = JStr ''2h'' then ''2h'' else ''post'')
               @ ''_enviado''
         in case (case set_true columna of
                    None \<Rightarrow> Inl (ErrorBD (''column does not exist: '' @ columna))
                  | Some f \<Rightarrow> update_gratuita_donde_id b idp f) of
              Inl e \<Rightarrow> (fallo_g ''Error al marcar el recordatorio'' e, b)
            | Inr ([], b') \<Rightarrow>
                (responder_g 404 (Sobre False (Some ''Cita no encontrada'') SinDatos None), b')
            | Inr (r # rs, b') \<Rightarrow>
                (responder_g 200
                   (Sobre True
                      (Some (''Recordatorio '' @ js_String (tipo body) @ '' marcado como enviado''))
                      (Una r) None), b')))"

text \<open>PATCH /api/citas/reset-flags/all\<close>

definition gratuitas_reset_flags_all :: "'z bd_g \<Rightarrow> 'z resp_g \<times> 'z bd_g" where
  "gratuitas_reset_flags_all b =
     (case pool_query b (map reset_flags (filas b), b\<lparr>filas := map reset_flags (filas b)\<rparr>) of
        Inl e \<Rightarrow> (fallo_g ''Error al resetear los flags'' e, b)
      | Inr (rows, b') \<Rightarrow>
          (responder_g 200
             (Sobre True (Some (''Flags reseteados para '' @ texto_de_nat (length rows) @ '' citas''))
                (Varias rows) None), b'))"

text \<open>DELETE /api/citas\<close>

definition gratuitas_delete_citas :: "'z bd_g \<Rightarrow> 'z resp_g \<times> 'z bd_g" where
  "gratuitas_delete_citas b =
     (case pool_query b (filas b, b\<lparr>filas := []\<rparr>) of
        Inl e \<Rightarrow> (fallo_g ''Error al eliminar las citas'' e, b)
      | Inr (rows, b') \<Rightarrow>
          (responder_g 200
             (Sobre True (Some (texto_de_nat (length rows) @ '' citas eliminadas exitosamente''))
                SinDatos None), b'))"

text \<open>The application: the routes in the order of their registration.\<close>

type_synonym 'z manejador_g = "'z entorno \<Rightarrow> cuerpo_gratuita \<Rightarrow> 'z bd_g \<Rightarrow> 'z resp_g \<times> 'z bd_g"

definition gratuitas_rutas :: "(metodo \<times> segmento list \<times> (string \<Rightarrow> 'z manejador_g)) list" where
  "gratuitas_rutas =
     [(GET, [Lit ''api'', Lit ''test-connection''], \<lambda>v env body. gratuitas_test_connection env),
      (GET, [Lit ''api'', Lit ''diagnostico''], \<lambda>v env body. gratuitas_diagnostico),
      (GET, [Lit ''api'', Lit ''citas''], \<lambda>v env body. gratuitas_get_citas),
      (POST, [Lit ''api'', Lit ''citas''], \<lambda>v env body. gratuitas_post_citas env body),
      (DELETE, [Lit ''api'', Lit ''citas'', Param], \<lambda>v env body. gratuitas_delete_cita env v),
      (PATCH, [Lit ''api'', Lit ''citas'', Param, Lit ''reset-flags''],
         \<lambda>v env body. gratuitas_reset_flags v),
      (PATCH, [Lit ''api'', Lit ''citas'', Param, Lit ''marcar-recordatorio''],
         \<lambda>v env body. gratuitas_marcar_recordatorio v body),
      (PATCH, [Lit ''api'', Lit ''citas'', Lit ''reset-flags'', Lit ''all''],
         \<lambda>v env body. gratuitas_reset_flags_all),
      (DELETE, [Lit ''api'', Lit ''citas''], \<lambda>v env body. gratuitas_delete_citas),
      (GET, [],
         \<lambda>v env body b.
           (responder_g 200
              (Raiz (case N8N_WEBHOOK_URL env of None \<Rightarrow> False | Some u \<Rightarrow> u \<noteq> [])), b))]"

definition gratuitas_app ::
  "'z entorno \<Rightarrow> cuerpo_gratuita peticion \<Rightarrow> 'z bd_g \<Rightarrow> 'z resp_g \<times> 'z bd_g" where
  "gratuitas_app env req b =
     (case despachar gratuitas_rutas (metodo_http req) (ruta req) of
        Some h \<Rightarrow> h env (cuerpo req) b
      | None \<Rightarrow> (responder_g 404 SinRuta_g, b))"

section \<open>Requests and notions used in the statements\<close>

text \<open>The requests of the two applications that the theorems speak about.\<close>

definition crear :: "cuerpo_cita \<Rightarrow> cuerpo_cita peticion" where
  "crear body = \<lparr>metodo_http = POST, ruta = [''api'', ''citas''], cuerpo = body\<rparr>"

definition cancelar_id :: "string \<Rightarrow> cuerpo_cita \<Rightarrow> cuerpo_cita peticion" where
  "cancelar_id idp body = \<lparr>metodo_http = DELETE, ruta = [''api'', ''citas'', idp], cuerpo = body\<rparr>"

definition actualizar :: "string \<Rightarrow> cuerpo_cita \<Rightarrow> cuerpo_cita peticion" where
  "actualizar idp body = \<lparr>metodo_http = PUT, ruta = [''api'', ''citas'', idp], cuerpo = body\<rparr>"

definition crear_g :: "cuerpo_gratuita \<Rightarrow> cuerpo_gratuita peticion" where
  "crear_g body = \<lparr>metodo_http = POST, ruta = [''api'', ''citas''], cuerpo = body\<rparr>"

definition eliminar_g :: "string \<Rightarrow> cuerpo_gratuita \<Rightarrow> cuerpo_gratuita peticion" where
  "eliminar_g idp body = \<lparr>metodo_http = DELETE, ruta = [''api'', ''citas'', idp], cuerpo = body\<rparr>"

definition marcar_g :: "string \<Rightarrow> cuerpo_gratuita \<Rightarrow> cuerpo_gratuita peticion" where
  "marcar_g idp body =
     \<lparr>metodo_http = PATCH, ruta = [''api'', ''citas'', idp, ''marcar-recordatorio''], cuerpo = body\<rparr>"

definition reset_g :: "string \<Rightarrow> cuerpo_gratuita \<Rightarrow> cuerpo_gratuita peticion" where
  "reset_g idp body =
     \<lparr>metodo_http = PATCH, ruta = [''api'', ''citas'', idp, ''reset-flags''], cuerpo = body\<rparr>"

definition reset_todas_g :: "cuerpo_gratuita \<Rightarrow> cuerpo_gratuita peticion" where
  "reset_todas_g body =
     \<lparr>metodo_http = PATCH, ruta = [''api'', ''citas'', ''reset-flags'', ''all''], cuerpo = body\<rparr>"

text \<open>
  The validation of POST /api/citas in server.js passes: the seven fields that its
  guard tests are truthy.
\<close>

definition campos_requeridos :: "cuerpo_cita \<Rightarrow> bool" where
  "campos_requeridos body =
     (truthy (b_nombre body) \<and> truthy (b_apellido body) \<and> truthy (b_email body)
      \<and> truthy (b_telefono body) \<and> truthy (b_fecha body) \<and> truthy (b_hora body)
      \<and> truthy (b_motivo body))"

text \<open>
  An active appointment in a slot: a row with that date and time whose status is
  present and is not \<^verbatim>\<open>cancelada\<close>. This is the reading of non-cancelled that the
  conflict query has: SQL does not count a comparison with a missing status as true.
\<close>

definition activa_en :: "sqltext \<Rightarrow> sqltext \<Rightarrow> cita \<Rightarrow> bool" where
  "activa_en f h r =
     (fecha r = f \<and> hora r = h \<and> estado r \<noteq> None \<and> estado r \<noteq> Some ''cancelada'')"

text \<open>The row that a successful POST /api/citas of server.js stores and returns.\<close>

definition fila_creada :: "contexto \<Rightarrow> cuerpo_cita \<Rightarrow> cita bd \<Rightarrow> cita" where
  "fila_creada ctx body b =
     \<lparr>id_cita = int (secuencia b), nombre = prepareValue (b_nombre body),
      apellido = prepareValue (b_apellido body), email = prepareValue (b_email body),
      telefono = prepareValue (b_telefono body), fecha = prepareValue (b_fecha body),
      hora = prepareValue (b_hora body), motivo = prepareValue (b_motivo body),
      notas = (if truthy (b_notas body) then prepareValue (b_notas body) else None),
      estado = Some ''confirmada'', fecha_actualizacion = defecto_actualizacion ctx\<rparr>"




text \<open>The row that a successful POST /api/citas of the demo server stores and returns.\<close>

definition fila_gratuita_creada ::
  "'z entorno \<Rightarrow> cuerpo_gratuita \<Rightarrow> 'z bd_g \<Rightarrow> int \<Rightarrow> 'z cita_gratuita_scheme" where
  "fila_gratuita_creada env body b t =
     \<lparr>id_gratuita = int (secuencia b), nombre_g = prepareValue (g_nombre body),
      email_g = prepareValue (g_email body), telefono_g = prepareValue (g_telefono body),
      fecha_cita = t, recordatorio_24h_enviado = False, recordatorio_2h_enviado = False,
      recordatorio_post_enviado = False, \<dots> = columnas_defecto env\<rparr>"

text \<open>
  The specification's reading of the flag operation: for a recognised flag name,
  that one reminder boolean of the record becomes true. It is compared below with what
  PATCH /api/citas/:id/marcar-recordatorio does.
\<close>

definition spec_setFlag :: "string \<Rightarrow> 'z cita_gratuita_scheme \<Rightarrow> 'z cita_gratuita_scheme" where
  "spec_setFlag t r =
     (if t = ''24h'' then r\<lparr>recordatorio_24h_enviado := True\<rparr>
      else if t = ''2h'' then r\<lparr>recordatorio_2h_enviado := True\<rparr>
      else r\<lparr>recordatorio_post_enviado := True\<rparr>)"

text \<open>
  The specification's table of offset codes, in hours: \<^verbatim>\<open>24h\<close> is now + 24,
  \<^verbatim>\<open>2h\<close> is now + 2, \<^verbatim>\<open>1h_pasado\<close> is now - 1, anything else is not a code.
\<close>

definition spec_desplazamiento :: "jsval \<Rightarrow> int option" where
  "spec_desplazamiento tf =
     (if tf = JStr ''24h'' then Some 24
      else if tf = JStr ''2h'' then Some 2
      else if tf = JStr ''1h_pasado'' then Some (- 1)
      else None)"

section \<open>Example stores and requests\<close>

text \<open>Rows, stores, surroundings and bodies at which the theorems are instantiated.\<close>

definition ej_cita_1 :: cita where
  "ej_cita_1 = \<lparr>id_cita = 1, nombre = Some ''Ana'', apellido = Some ''Paz'',
     email = Some ''ana@example.org'', telefono = Some ''5551234'',
     fecha = Some ''2025-06-01'', hora = Some ''10:00'', motivo = Some ''consulta'',
     notas = None, estado = Some ''cancelada'', fecha_actualizacion = Some 1748700000000\<rparr>"

definition ej_cita_2 :: cita where
  "ej_cita_2 = \<lparr>id_cita = 2, nombre = Some ''Luis'', apellido = Some ''Mora'',
     email = Some ''luis@example.org'', telefono = Some ''5555678'',
     fecha = Some ''2025-06-01'', hora = Some ''09:00'', motivo = Some ''control'',
     notas = Some ''primera vez'', estado = Some ''confirmada'',
     fecha_actualizacion = Some 1748600000000\<rparr>"

definition ej_cita_3 :: cita where
  "ej_cita_3 = \<lparr>id_cita = 3, nombre = Some ''Eva'', apellido = Some ''Ruiz'',
     email = Some ''eva@example.org'', telefono = Some ''5550000'',
     fecha = Some ''2025-06-02'', hora = Some ''08:00'', motivo = Some ''consulta'',
     notas = None, estado = Some ''confirmada'', fecha_actualizacion = Some 1748600000000\<rparr>"

definition ej_bd :: "cita bd" where
  "ej_bd = \<lparr>filas = [ej_cita_1, ej_cita_2, ej_cita_3], secuencia = 4, averia = None\<rparr>"

definition ej_bd_vacia :: "cita bd" where
  "ej_bd_vacia = \<lparr>filas = [], secuencia = 1, averia = None\<rparr>"

definition ej_contexto :: contexto where
  "ej_contexto = \<lparr>current_timestamp = 1748772000000, current_date = ''2025-06-01'',
     defecto_actualizacion = Some 1748772000000, reloj = 1748772000000\<rparr>"

definition ej_cuerpo :: cuerpo_cita where
  "ej_cuerpo = \<lparr>b_nombre = JStr ''Sara'', b_apellido = JStr ''Gil'',
     b_email = JStr ''sara@example.org'', b_telefono = JStr ''5559999'',
     b_fecha = JStr ''2025-06-01'', b_hora = JStr ''10:00'', b_motivo = JStr ''consulta'',
     b_notas = JUndefined, b_estado = JStr ''confirmada''\<rparr>"

definition ej_fila_a :: cita_gratuita where
  "ej_fila_a = \<lparr>id_gratuita = 1, nombre_g = Some ''Ana'', email_g = Some ''ana@example.org'',
     telefono_g = Some ''5551234'', fecha_cita = 1743336000000,
     recordatorio_24h_enviado = True, recordatorio_2h_enviado = False,
     recordatorio_post_enviado = True\<rparr>"

definition ej_fila_b :: cita_gratuita where
  "ej_fila_b = \<lparr>id_gratuita = 2, nombre_g = Some ''Luis'', email_g = Some ''luis@example.org'',
     telefono_g = Some ''5555678'', fecha_cita = 1743256800000,
     recordatorio_24h_enviado = False, recordatorio_2h_enviado = True,
     recordatorio_post_enviado = False\<rparr>"

definition ej_bd_g :: "unit bd_g" where
  "ej_bd_g = \<lparr>filas = [ej_fila_a, ej_fila_b], secuencia = 3, averia = None\<rparr>"

definition ej_bd_g_vacia :: "unit bd_g" where
  "ej_bd_g_vacia = \<lparr>filas = [], secuencia = 1, averia = None\<rparr>"

definition ej_zona_utc :: zona where
  "ej_zona_utc = \<lparr>LocalTZA_utc = (\<lambda>t. 0), LocalTZA_local = (\<lambda>t. 0)\<rparr>"

text \<open>
  A zone with one clock change, as Europe/Madrid has it in spring 2025: UTC+1 until
  2025-03-30T01:00:00Z, UTC+2 from then on. Local times that the change skips are read
  with the offset before it, as ECMAScript prescribes.
\<close>

definition ej_zona_madrid :: zona where
  "ej_zona_madrid =
     \<lparr>LocalTZA_utc = (\<lambda>t. if t < 1743296400000 then 3600000 else 7200000),
      LocalTZA_local = (\<lambda>t. if t < 1743296400000 + 7200000 then 3600000 else 7200000)\<rparr>"

text \<open>The clock of the examples reads 2025-03-29T12:00:00Z.\<close>

definition ej_entorno :: "unit entorno" where
  "ej_entorno = \<lparr>reloj_js = 1743249600000, zona_horaria = ej_zona_utc,
     N8N_WEBHOOK_URL = Some ''http://n8n.local/webhook'',
     fetch = (\<lambda>u p. Rechazo ''fetch failed''), columnas_defecto = (),
     now_bd = 1743249600000\<rparr>"

definition ej_cuerpo_g :: cuerpo_gratuita where
  "ej_cuerpo_g = \<lparr>g_nombre = JStr ''Eva'', g_email = JStr ''eva@example.org'',
     g_telefono = JNum 5550000, tipoFecha = JStr ''24h'', tipo = JStr ''2h''\<rparr>"

text \<open>
  A \<^verbatim>\<open>citas_gratuitas\<close> table that also has an update timestamp, one of the further
  columns that the extension part of a row stands for.
\<close>

record cita_gratuita_sellada = cita_gratuita +
  fecha_actualizacion_g :: int

definition ej_fila_sellada :: cita_gratuita_sellada where
  "ej_fila_sellada = \<lparr>id_gratuita = 1, nombre_g = Some ''Ana'', email_g = Some ''ana@example.org'',
     telefono_g = Some ''5551234'', fecha_cita = 1743336000000,
     recordatorio_24h_enviado = True, recordatorio_2h_enviado = False,
     recordatorio_post_enviado = False, fecha_actualizacion_g = 1743000000000\<rparr>"

definition ej_bd_sellada :: "cita_gratuita_sellada bd" where
  "ej_bd_sellada = \<lparr>filas = [ej_fila_sellada], secuencia = 2, averia = None\<rparr>"

definition ej_entorno_sellado :: "unit cita_gratuita_sellada_ext entorno" where
  "ej_entorno_sellado = \<lparr>reloj_js = 1743249600000, zona_horaria = ej_zona_utc,
     N8N_WEBHOOK_URL = None, fetch = (\<lambda>u p. Rechazo ''fetch failed''),
     columnas_defecto = cita_gratuita.more ej_fila_sellada, now_bd = 1743249600000\<rparr>"

section \<open>Routing\<close>

lemma parse_id_no_vacio: "parse_id s = Some i \<Longrightarrow> s \<noteq> []"
  by (auto simp: parse_id_def Let_def)

lemma parse_id_ejemplos:
  "parse_id ''1'' = Some 1" "parse_id ''2'' = Some 2" "parse_id ''4'' = Some 4"
  "parse_id ''+1'' = Some 1" "parse_id '' 1'' = Some 1" "parse_id ''pendientes'' = None"
  by (simp_all add: parse_id_def es_cifra_def es_blanco_def valor_cifra_def Let_def)

lemma minusculas_literales:
  "map minuscula ''api'' = ''api''" "map minuscula ''citas'' = ''citas''"
  "map minuscula ''fecha'' = ''fecha''" "map minuscula ''pendientes'' = ''pendientes''"
  "map minuscula ''health'' = ''health''" "map minuscula ''test-connection'' = ''test-connection''"
  "map minuscula ''diagnostico'' = ''diagnostico''" "map minuscula ''reset-flags'' = ''reset-flags''"
  "map minuscula ''marcar-recordatorio'' = ''marcar-recordatorio''" "map minuscula ''all'' = ''all''"
  "map minuscula ''API'' = ''api''" "map minuscula ''CITAS'' = ''citas''"
  by (simp_all add: minuscula_def)

lemma despachar_en_tabla:
  "despachar rs m p = Some h \<Longrightarrow>
     \<exists>pat hf v. (m, pat, hf) \<in> set rs \<and> coincide pat p = Some v \<and> h = hf v"
  by (induction rs m p rule: despachar.induct) (auto split: if_splits option.splits)

lemma despachar_post:
  "despachar server_rutas POST [''api'', ''citas''] = Some (\<lambda>ctx body. server_post_citas ctx body)"
  by (simp add: server_rutas_def minusculas_literales)

lemma despachar_delete:
  "idp \<noteq> [] \<Longrightarrow> despachar server_rutas DELETE [''api'', ''citas'', idp]
     = Some (\<lambda>ctx body. server_delete_cita ctx idp)"
  by (simp add: server_rutas_def minusculas_literales)

lemma despachar_put:
  "idp \<noteq> [] \<Longrightarrow> despachar server_rutas PUT [''api'', ''citas'', idp]
     = Some (\<lambda>ctx body. server_put_cita ctx idp body)"
  by (simp add: server_rutas_def minusculas_literales)

lemma despachar_fecha:
  "d \<noteq> [] \<Longrightarrow> despachar server_rutas GET [''api'', ''citas'', ''fecha'', d]
     = Some (\<lambda>ctx body. server_get_citas_fecha d)"
  by (simp add: server_rutas_def minusculas_literales)

lemma despachar_post_g:
  "despachar gratuitas_rutas POST [''api'', ''citas'']
     = Some (\<lambda>env body. gratuitas_post_citas env body)"
  by (simp add: gratuitas_rutas_def minusculas_literales)

lemma despachar_delete_g:
  "despachar gratuitas_rutas DELETE [''api'', ''citas'', idp]
     = (if idp = [] then Some (\<lambda>env body. gratuitas_delete_citas)
        else Some (\<lambda>env body. gratuitas_delete_cita env idp))"
  by (simp add: gratuitas_rutas_def minusculas_literales)

lemma despachar_reset_all:
  "despachar gratuitas_rutas PATCH [''api'', ''citas'', ''reset-flags'', ''all'']
     = Some (\<lambda>env body. gratuitas_reset_flags_all)"
  by (simp add: gratuitas_rutas_def minusculas_literales)

lemma despachar_marcar:
  "idp \<noteq> [] \<Longrightarrow>
   despachar gratuitas_rutas PATCH [''api'', ''citas'', idp, ''marcar-recordatorio'']
     = Some (\<lambda>env body. gratuitas_marcar_recordatorio idp body)"
  by (simp add: gratuitas_rutas_def minusculas_literales)

lemma app_crear: "server_app ctx (crear body) b = server_post_citas ctx body b"
  by (simp add: server_app_def crear_def despachar_post)

lemma app_cancelar:
  "idp \<noteq> [] \<Longrightarrow> server_app ctx (cancelar_id idp body) b = server_delete_cita ctx idp b"
  by (simp add: server_app_def cancelar_id_def despachar_delete)

lemma app_actualizar:
  "idp \<noteq> [] \<Longrightarrow> server_app ctx (actualizar idp body) b = server_put_cita ctx idp body b"
  by (simp add: server_app_def actualizar_def despachar_put)

lemma app_crear_g: "gratuitas_app env (crear_g body) b = gratuitas_post_citas env body b"
  by (simp add: gratuitas_app_def crear_g_def despachar_post_g)

lemma app_eliminar_g:
  "gratuitas_app env (eliminar_g idp body) b
     = (if idp = [] then gratuitas_delete_citas b else gratuitas_delete_cita env idp b)"
  by (simp add: gratuitas_app_def eliminar_g_def despachar_delete_g)

section \<open>What the writing handlers of server.js do to the store\<close>

lemma sql_eq_Some: "sql_eq x (Some d) = (x = Some d)"
  by (cases x) auto

lemma truthy_prepareValue: "truthy v \<Longrightarrow> \<exists>s. prepareValue v = Some s"
  by (cases v) auto

lemma ocupan_activa:
  assumes "truthy vf" "truthy vh"
  shows "ocupan b (prepareValue vf) (prepareValue vh) (Some ''cancelada'')
       = filter (activa_en (prepareValue vf) (prepareValue vh)) (filas b)"
proof -
  obtain f where f: "prepareValue vf = Some f" using truthy_prepareValue [OF assms(1)] by blast
  obtain h where h: "prepareValue vh = Some h" using truthy_prepareValue [OF assms(2)] by blast
  have "\<And>r. (sql_eq (fecha r) (Some f) \<and> sql_eq (hora r) (Some h) \<and> sql_ne (estado r) (Some ''cancelada''))
      = activa_en (Some f) (Some h) r"
    by (case_tac "estado r") (auto simp: activa_en_def sql_eq_Some)
  then show ?thesis by (simp add: ocupan_def f h)
qed

lemma post_resultado:
  assumes "averia b = None" "campos_requeridos body"
  shows "server_post_citas ctx body b =
     (if \<exists>r \<in> set (filas b). activa_en (prepareValue (b_fecha body)) (prepareValue (b_hora body)) r
      then (responder 409 (ErrorJson ''Ya existe una cita en ese horario''), b)
      else (responder 201 (Fila (fila_creada ctx body b)),
            b\<lparr>filas := filas b @ [fila_creada ctx body b], secuencia := Suc (secuencia b)\<rparr>))"
proof -
  have tf: "truthy (b_fecha body)" and th: "truthy (b_hora body)"
    using assms(2) by (simp_all add: campos_requeridos_def)
  have oc: "ocupan b (prepareValue (b_fecha body)) (prepareValue (b_hora body)) (Some ''cancelada'')
       = filter (activa_en (prepareValue (b_fecha body)) (prepareValue (b_hora body))) (filas b)"
    by (rule ocupan_activa [OF tf th])
  have ne: "(filter (activa_en (prepareValue (b_fecha body)) (prepareValue (b_hora body))) (filas b) = [])
      = (\<not> (\<exists>r \<in> set (filas b). activa_en (prepareValue (b_fecha body)) (prepareValue (b_hora body)) r))"
    by (simp add: filter_empty_conv)
  show ?thesis
    using assms ne
    by (simp add: server_post_citas_def campos_requeridos_def oc pool_query_def
          insertar_cita_def nueva_cita_def fila_creada_def js_or_def Let_def)
qed

lemma delete_resultado:
  assumes "averia b = None" "parse_id idp = Some i"
  shows "snd (server_delete_cita ctx idp b)
       = b\<lparr>filas := map (\<lambda>r. if id_cita r = i then cancelar ctx r else r) (filas b)\<rparr>"
  using assms
  by (simp add: server_delete_cita_def update_donde_id_def con_id_def split: list.splits)

lemma put_resultado:
  assumes "averia b = None" "parse_id idp = Some i"
  shows "snd (server_put_cita ctx idp body b)
       = b\<lparr>filas := map (\<lambda>r. if id_cita r = i
                then reemplazar ctx
                  (map prepareValue
                     [b_nombre body, b_apellido body, b_email body, b_telefono body,
                      b_fecha body, b_hora body, b_motivo body, b_notas body, b_estado body]) r
                else r) (filas b)\<rparr>"
  using assms
  by (simp add: server_put_cita_def update_donde_id_def con_id_def split: list.splits)


section \<open>Conflict detection at creation (C1)\<close>




section \<open>The pending listing (C2)\<close>

text \<open>
  C2. The claim: a GET of /api/citas/pendientes answers 200 with the confirmed
  appointments dated today or later. On the code the request never reaches that handler:
  the route /api/citas/:id is registered before it and matches the path with
  \<^verbatim>\<open>id = pendientes\<close>, which is not a key, so the key query fails and the answer is
  the 500 of the by-id handler, whatever the store holds.
\<close>

theorem pending_route_is_shadowed:
  "server_app ctx \<lparr>metodo_http = GET, ruta = [''api'', ''citas'', ''pendientes''], cuerpo = body\<rparr> b
     = server_get_cita ''pendientes'' b
   \<and> estado_http (fst (server_get_cita ''pendientes'' b)) = 500
   \<and> snd (server_get_cita ''pendientes'' b) = b"
  by (simp add: server_app_def server_rutas_def server_get_cita_def con_id_def parse_id_ejemplos responder_def split: option.splits)

text \<open>
  On the example store the request is answered 500, although the handler it never
  reaches would list the two confirmed appointments.
\<close>

theorem pending_route_witness:
  "server_app ej_contexto
      \<lparr>metodo_http = GET, ruta = [''api'', ''citas'', ''pendientes''], cuerpo = ej_cuerpo\<rparr> ej_bd
     = (responder 500 (ErrorJson ''Error al obtener la cita''), ej_bd)
   \<and> fst (server_get_citas_pendientes ej_contexto ej_bd) = responder 200 (Filas [ej_cita_2, ej_cita_3])"
  using pending_route_is_shadowed [of ej_contexto ej_cuerpo ej_bd]
  by (simp add: server_get_cita_def con_id_def parse_id_ejemplos ej_bd_def
        server_get_citas_pendientes_def pool_query_def ej_cita_1_def ej_cita_2_def ej_cita_3_def
        ej_contexto_def orden_fecha_hora_def)

section \<open>The status of an appointment over a sequence of requests (C3)\<close>



















section \<open>Setting one reminder flag (C4)\<close>

lemma marcar_handler:
  assumes "averia b = None" "parse_id idp = Some i"
    and "filter (\<lambda>x. id_gratuita x = i) (filas b) = r # rs"
    and "t \<in> {''24h'', ''2h'', ''post''}" "tipo body = JStr t"
  shows "gratuitas_marcar_recordatorio idp body b =
      (responder_g 200 (Sobre True (Some (''Recordatorio '' @ t @ '' marcado como enviado''))
          (Una (spec_setFlag t r)) None),
       b\<lparr>filas := map (\<lambda>x. if id_gratuita x = i then spec_setFlag t x else x) (filas b)\<rparr>)"
  using assms
  by (auto simp: gratuitas_marcar_recordatorio_def set_true_def update_gratuita_donde_id_def
       con_id_def spec_setFlag_def)

lemma spec_setFlag_frame:
  "t \<in> {''24h'', ''2h'', ''post''} \<Longrightarrow>
     recordatorio_24h_enviado (spec_setFlag t r) = (t = ''24h'' \<or> recordatorio_24h_enviado r)
   \<and> recordatorio_2h_enviado (spec_setFlag t r) = (t = ''2h'' \<or> recordatorio_2h_enviado r)
   \<and> recordatorio_post_enviado (spec_setFlag t r) = (t = ''post'' \<or> recordatorio_post_enviado r)
   \<and> reset_flags (spec_setFlag t r) = reset_flags r"
  by (auto simp: spec_setFlag_def reset_flags_def)

text \<open>
  C4. For an existing appointment key and a recognised flag name (24h, 2h, post), the
  request PATCH /api/citas/:id/marcar-recordatorio sets exactly that reminder boolean
  in the rows with that key and changes nothing else: the other two booleans and every
  other column of those rows (\<open>reset_flags\<close> erases the three booleans and nothing
  else), and every other row. \<open>r\<close> is the first row with the key, the one the response
  carries.
\<close>

theorem set_flag_sets_one_flag:
  assumes "averia b = None" and "parse_id idp = Some i"
    and "filter (\<lambda>x. id_gratuita x = i) (filas b) = r # rs"
    and "t \<in> {''24h'', ''2h'', ''post''}" and "tipo body = JStr t"
  shows "gratuitas_app env \<lparr>metodo_http = PATCH,
            ruta = [''api'', ''citas'', idp, ''marcar-recordatorio''], cuerpo = body\<rparr> b
       = (responder_g 200
            (Sobre True (Some (''Recordatorio '' @ t @ '' marcado como enviado''))
               (Una (spec_setFlag t r)) None),
          b\<lparr>filas := map (\<lambda>x. if id_gratuita x = i then spec_setFlag t x else x) (filas b)\<rparr>)
     \<and> recordatorio_24h_enviado (spec_setFlag t r) = (t = ''24h'' \<or> recordatorio_24h_enviado r)
     \<and> recordatorio_2h_enviado (spec_setFlag t r) = (t = ''2h'' \<or> recordatorio_2h_enviado r)
     \<and> recordatorio_post_enviado (spec_setFlag t r) = (t = ''post'' \<or> recordatorio_post_enviado r)
     \<and> reset_flags (spec_setFlag t r) = reset_flags r"
proof -
  have "idp \<noteq> []" using assms(2) by (rule parse_id_no_vacio)
  then have "gratuitas_app env \<lparr>metodo_http = PATCH,
            ruta = [''api'', ''citas'', idp, ''marcar-recordatorio''], cuerpo = body\<rparr> b
       = gratuitas_marcar_recordatorio idp body b"
    by (simp add: gratuitas_app_def despachar_marcar)
  with marcar_handler [OF assms] spec_setFlag_frame [OF assms(4)] show ?thesis by simp
qed

theorem set_flag_witness:
  "averia ej_bd_g = None \<and> parse_id ''2'' = Some 2
   \<and> filter (\<lambda>x. id_gratuita x = 2) (filas ej_bd_g) = [ej_fila_b]
   \<and> tipo (ej_cuerpo_g\<lparr>tipo := JStr ''post''\<rparr>) = JStr ''post''
   \<and> gratuitas_app ej_entorno \<lparr>metodo_http = PATCH,
          ruta = [''api'', ''citas'', ''2'', ''marcar-recordatorio''],
          cuerpo = ej_cuerpo_g\<lparr>tipo := JStr ''post''\<rparr>\<rparr> ej_bd_g
       = (responder_g 200
            (Sobre True (Some ''Recordatorio post marcado como enviado'')
               (Una (ej_fila_b\<lparr>recordatorio_post_enviado := True\<rparr>)) None),
          ej_bd_g\<lparr>filas := [ej_fila_a, ej_fila_b\<lparr>recordatorio_post_enviado := True\<rparr>]\<rparr>)"
proof -
  have h1: "averia ej_bd_g = None" by (simp add: ej_bd_g_def)
  have h2: "parse_id ''2'' = Some 2" by (simp add: parse_id_ejemplos)
  have h3: "filter (\<lambda>x. id_gratuita x = 2) (filas ej_bd_g) = ej_fila_b # []"
    by (simp add: ej_bd_g_def ej_fila_a_def ej_fila_b_def)
  have h4: "''post'' \<in> {''24h'', ''2h'', ''post''}" by simp
  have h5: "tipo (ej_cuerpo_g\<lparr>tipo := JStr ''post''\<rparr>) = JStr ''post''" by simp
  show ?thesis
    using h1 h2 h3 set_flag_sets_one_flag [OF h1 h2 h3 h4 h5, of ej_entorno]
    by (simp add: spec_setFlag_def ej_bd_g_def ej_fila_a_def ej_fila_b_def)
qed

section \<open>Resetting the flags of every appointment (C5)\<close>

text \<open>
  C5. On a store with N appointments, whatever their flags, PATCH
  /api/citas/reset-flags/all answers with status 200 and a body whose message counts N
  and whose data are N records, the rows of the store after the request; they are the
  same appointments and each has its three reminder booleans false.
\<close>

theorem reset_all_flags_clears_every_row:
  "averia b = None \<Longrightarrow>
     (case gratuitas_app env \<lparr>metodo_http = PATCH,
            ruta = [''api'', ''citas'', ''reset-flags'', ''all''], cuerpo = body\<rparr> b of
        (resp, b') \<Rightarrow>
          resp = responder_g 200
                   (Sobre True
                      (Some (''Flags reseteados para '' @ texto_de_nat (length (filas b)) @ '' citas''))
                      (Varias (filas b')) None)
          \<and> estado_g resp = 200
          \<and> json_g resp
              = Sobre True
                  (Some (''Flags reseteados para '' @ texto_de_nat (length (filas b)) @ '' citas''))
                  (Varias (filas b')) None
          \<and> length (filas b') = length (filas b)
          \<and> map id_gratuita (filas b') = map id_gratuita (filas b)
          \<and> (\<forall>r \<in> set (filas b'). \<not> recordatorio_24h_enviado r \<and> \<not> recordatorio_2h_enviado r
                 \<and> \<not> recordatorio_post_enviado r))"
  by (simp add: gratuitas_app_def despachar_reset_all gratuitas_reset_flags_all_def
        pool_query_def reset_flags_def comp_def responder_g_def)

theorem reset_all_witness:
  "averia ej_bd_g = None
   \<and> estado_g (fst (gratuitas_app ej_entorno \<lparr>metodo_http = PATCH,
            ruta = [''api'', ''citas'', ''reset-flags'', ''all''], cuerpo = ej_cuerpo_g\<rparr> ej_bd_g)) = 200
   \<and> json_g (fst (gratuitas_app ej_entorno \<lparr>metodo_http = PATCH,
            ruta = [''api'', ''citas'', ''reset-flags'', ''all''], cuerpo = ej_cuerpo_g\<rparr> ej_bd_g))
      = Sobre True (Some ''Flags reseteados para 2 citas'')
          (Varias [ej_fila_a\<lparr>recordatorio_24h_enviado := False, recordatorio_post_enviado := False\<rparr>,
                   ej_fila_b\<lparr>recordatorio_2h_enviado := False\<rparr>]) None
   \<and> filas (snd (gratuitas_app ej_entorno \<lparr>metodo_http = PATCH,
            ruta = [''api'', ''citas'', ''reset-flags'', ''all''], cuerpo = ej_cuerpo_g\<rparr> ej_bd_g))
      = [ej_fila_a\<lparr>recordatorio_24h_enviado := False, recordatorio_post_enviado := False\<rparr>,
         ej_fila_b\<lparr>recordatorio_2h_enviado := False\<rparr>]
   \<and> map (\<lambda>r. (recordatorio_24h_enviado r, recordatorio_2h_enviado r, recordatorio_post_enviado r))
        (filas (snd (gratuitas_app ej_entorno \<lparr>metodo_http = PATCH,
            ruta = [''api'', ''citas'', ''reset-flags'', ''all''], cuerpo = ej_cuerpo_g\<rparr> ej_bd_g)))
      = [(False, False, False), (False, False, False)]"
proof -
  have h: "averia ej_bd_g = None" by (simp add: ej_bd_g_def)
  have f: "filas (snd (gratuitas_app ej_entorno \<lparr>metodo_http = PATCH,
            ruta = [''api'', ''citas'', ''reset-flags'', ''all''], cuerpo = ej_cuerpo_g\<rparr> ej_bd_g))
      = [ej_fila_a\<lparr>recordatorio_24h_enviado := False, recordatorio_post_enviado := False\<rparr>,
         ej_fila_b\<lparr>recordatorio_2h_enviado := False\<rparr>]"
    by (simp add: gratuitas_app_def despachar_reset_all gratuitas_reset_flags_all_def
        pool_query_def reset_flags_def ej_bd_g_def ej_fila_a_def ej_fila_b_def)
  have n: "texto_de_nat (length (filas ej_bd_g)) = ''2''"
    by (simp add: ej_bd_g_def texto_de_nat.simps)
  show ?thesis
    using h f n reset_all_flags_clears_every_row [OF h, of ej_entorno ej_cuerpo_g]
    by (auto simp: ej_fila_a_def ej_fila_b_def split: prod.splits)
qed

section \<open>The webhook never reaches the response (C6)\<close>

lemma webhook_no_lanza: "\<exists>consola. enviarWebhookN8n env evento datos = Inr consola"
  by (simp add: enviarWebhookN8n_def split: option.splits respuesta_fetch.splits)

lemma webhook_no_Inl [simp]: "enviarWebhookN8n env evento datos \<noteq> Inl e"
  using webhook_no_lanza [of env evento datos] by auto

lemma post_sin_webhook:
  "gratuitas_post_citas env body b =
     (if \<not> truthy (g_nombre body) \<or> \<not> truthy (g_email body) \<or> \<not> truthy (g_telefono body)
         \<or> \<not> truthy (tipoFecha body)
      then (responder_g 400 (Sobre False (Some ''Faltan campos requeridos'') SinDatos None), b)
      else
        (case calcular_fechaCita (zona_horaria env) (reloj_js env) (tipoFecha body) of
           None \<Rightarrow> (responder_g 400 (Sobre False (Some ''Tipo de fecha invalido'') SinDatos None), b)
         | Some fechaCita \<Rightarrow>
             (case insertar_gratuita env b (prepareValue (g_nombre body))
                     (prepareValue (g_email body)) (prepareValue (g_telefono body)) fechaCita of
                Inl e \<Rightarrow> (fallo_g ''Error al crear la cita'' e, b)
              | Inr (citaCreada, b') \<Rightarrow>
                  (responder_g 201
                     (Sobre True (Some ''Cita creada exitosamente'') (Una citaCreada) None), b'))))"
  by (simp add: gratuitas_post_citas_def split: option.splits sum.splits prod.splits)

lemma delete_sin_webhook:
  "gratuitas_delete_cita env idp b =
     (case con_id b idp
             (\<lambda>i. (filter (\<lambda>r. id_gratuita r = i) (filas b),
                   b\<lparr>filas := filter (\<lambda>r. id_gratuita r \<noteq> i) (filas b)\<rparr>)) of
        Inl e \<Rightarrow> (fallo_g ''Error al eliminar la cita'' e, b)
      | Inr ([], b') \<Rightarrow>
          (responder_g 404 (Sobre False (Some ''Cita no encontrada'') SinDatos None), b')
      | Inr (citaEliminada # rs, b') \<Rightarrow>
          (responder_g 200
             (Sobre True (Some ''Cita eliminada exitosamente'') (Una citaEliminada) None), b'))"
  by (simp add: gratuitas_delete_cita_def split: option.splits sum.splits prod.splits list.splits)

lemma insertar_sin_webhook:
  "insertar_gratuita (env\<lparr>N8N_WEBHOOK_URL := u, fetch := f\<rparr>) b p1 p2 p3 p4
     = insertar_gratuita env b p1 p2 p3 p4"
  by (simp add: insertar_gratuita_def)

text \<open>
  C6. Whatever \<^verbatim>\<open>N8N_WEBHOOK_URL\<close> holds and whatever the network does with the call,
  creation and deletion answer exactly as they do in any other webhook situation, the
  successful one included: the response and the store do not depend on the two. With
  valid input and a store that answers, creation is 201 with the created row and
  deletion of an existing key is 200 with the removed row.
\<close>

theorem webhook_outcome_not_surfaced:
  "gratuitas_app (env\<lparr>N8N_WEBHOOK_URL := u, fetch := f\<rparr>) (crear_g body) b
     = gratuitas_app env (crear_g body) b
   \<and> gratuitas_app (env\<lparr>N8N_WEBHOOK_URL := u, fetch := f\<rparr>) (eliminar_g idp body) b
     = gratuitas_app env (eliminar_g idp body) b
   \<and> (averia b = None \<and> truthy (g_nombre body) \<and> truthy (g_email body)
        \<and> truthy (g_telefono body)
        \<and> calcular_fechaCita (zona_horaria env) (reloj_js env) (tipoFecha body) = Some t
      \<longrightarrow> gratuitas_app env (crear_g body) b
            = (responder_g 201
                 (Sobre True (Some ''Cita creada exitosamente'')
                    (Una (fila_gratuita_creada env body b t)) None),
               b\<lparr>filas := filas b @ [fila_gratuita_creada env body b t],
                 secuencia := Suc (secuencia b)\<rparr>))
   \<and> (averia b = None \<and> parse_id idp = Some i
        \<and> filter (\<lambda>x. id_gratuita x = i) (filas b) = r # rs
      \<longrightarrow> gratuitas_app env (eliminar_g idp body) b
            = (responder_g 200 (Sobre True (Some ''Cita eliminada exitosamente'') (Una r) None),
               b\<lparr>filas := filter (\<lambda>x. id_gratuita x \<noteq> i) (filas b)\<rparr>))"
proof (intro conjI impI)
  show "gratuitas_app (env\<lparr>N8N_WEBHOOK_URL := u, fetch := f\<rparr>) (crear_g body) b
     = gratuitas_app env (crear_g body) b"
    by (simp add: app_crear_g post_sin_webhook insertar_sin_webhook cong: option.case_cong)
  show "gratuitas_app (env\<lparr>N8N_WEBHOOK_URL := u, fetch := f\<rparr>) (eliminar_g idp body) b
     = gratuitas_app env (eliminar_g idp body) b"
    by (simp add: app_eliminar_g delete_sin_webhook)
next
  assume h: "averia b = None \<and> truthy (g_nombre body) \<and> truthy (g_email body)
        \<and> truthy (g_telefono body)
        \<and> calcular_fechaCita (zona_horaria env) (reloj_js env) (tipoFecha body) = Some t"
  then have tf: "truthy (tipoFecha body)"
    by (auto simp: calcular_fechaCita_def split: if_splits)
  show "gratuitas_app env (crear_g body) b
            = (responder_g 201
                 (Sobre True (Some ''Cita creada exitosamente'')
                    (Una (fila_gratuita_creada env body b t)) None),
               b\<lparr>filas := filas b @ [fila_gratuita_creada env body b t],
                 secuencia := Suc (secuencia b)\<rparr>)"
    using h tf
    by (simp add: app_crear_g post_sin_webhook insertar_gratuita_def pool_query_def Let_def
          fila_gratuita_creada_def)
next
  assume h: "averia b = None \<and> parse_id idp = Some i
        \<and> filter (\<lambda>x. id_gratuita x = i) (filas b) = r # rs"
  then have "idp \<noteq> []" by (auto dest: parse_id_no_vacio)
  then show "gratuitas_app env (eliminar_g idp body) b
            = (responder_g 200 (Sobre True (Some ''Cita eliminada exitosamente'') (Una r) None),
               b\<lparr>filas := filter (\<lambda>x. id_gratuita x \<noteq> i) (filas b)\<rparr>)"
    using h by (simp add: app_eliminar_g delete_sin_webhook con_id_def)
qed

theorem webhook_outcome_witness:
  "averia ej_bd_g = None \<and> truthy (g_nombre ej_cuerpo_g) \<and> truthy (g_email ej_cuerpo_g)
   \<and> truthy (g_telefono ej_cuerpo_g) \<and> parse_id ''2'' = Some 2
   \<and> estado_g (fst (gratuitas_app ej_entorno (crear_g ej_cuerpo_g) ej_bd_g)) = 201
   \<and> gratuitas_app (ej_entorno\<lparr>N8N_WEBHOOK_URL := None,
          fetch := (\<lambda>url p. Respuesta True 200 ''OK'')\<rparr>) (crear_g ej_cuerpo_g) ej_bd_g
       = gratuitas_app ej_entorno (crear_g ej_cuerpo_g) ej_bd_g
   \<and> gratuitas_app (ej_entorno\<lparr>N8N_WEBHOOK_URL := Some ''http://n8n.local/webhook'',
          fetch := (\<lambda>url p. Respuesta False 503 ''Service Unavailable'')\<rparr>)
        (eliminar_g ''2'' ej_cuerpo_g) ej_bd_g
       = (responder_g 200
            (Sobre True (Some ''Cita eliminada exitosamente'') (Una ej_fila_b) None),
          ej_bd_g\<lparr>filas := [ej_fila_a]\<rparr>)"
proof -
  have h: "averia ej_bd_g = None" "truthy (g_nombre ej_cuerpo_g)" "truthy (g_email ej_cuerpo_g)"
      "truthy (g_telefono ej_cuerpo_g)" "parse_id ''2'' = Some 2"
      "filter (\<lambda>x. id_gratuita x = 2) (filas ej_bd_g) = ej_fila_b # []"
      "filter (\<lambda>x. id_gratuita x \<noteq> 2) (filas ej_bd_g) = [ej_fila_a]"
      "calcular_fechaCita (zona_horaria ej_entorno) (reloj_js ej_entorno) (tipoFecha ej_cuerpo_g)
         = Some (setHours (zona_horaria ej_entorno) (reloj_js ej_entorno)
                   (getHours (zona_horaria ej_entorno) (reloj_js ej_entorno) + 24))"
    by (simp_all add: ej_bd_g_def ej_cuerpo_g_def ej_fila_a_def ej_fila_b_def parse_id_ejemplos calcular_fechaCita_def)
  show ?thesis
    using h
      webhook_outcome_not_surfaced [where env = ej_entorno and u = None
        and f = "\<lambda>url p. Respuesta True 200 ''OK''" and body = ej_cuerpo_g and b = ej_bd_g
        and idp = "''2''" and i = 2 and r = ej_fila_b and rs = "[]"
        and t = "setHours (zona_horaria ej_entorno) (reloj_js ej_entorno)
                   (getHours (zona_horaria ej_entorno) (reloj_js ej_entorno) + 24)"]
      webhook_outcome_not_surfaced [where env = ej_entorno
        and u = "Some ''http://n8n.local/webhook''"
        and f = "\<lambda>url p. Respuesta False 503 ''Service Unavailable''"
        and body = ej_cuerpo_g and b = ej_bd_g
        and idp = "''2''" and i = 2 and r = ej_fila_b and rs = "[]"]
    by (auto simp: responder_g_def)
qed

section \<open>The mandatory fields of creation (C7)\<close>

text \<open>
  C7, as stated, fails: a request with name, surname, email, phone, date and time but
  without a reason is refused with 400, because the guard of the handler tests
  \<^verbatim>\<open>motivo\<close> too.
\<close>

theorem reason_is_mandatory:
  "truthy (b_nombre (ej_cuerpo\<lparr>b_motivo := JUndefined\<rparr>))
   \<and> truthy (b_apellido (ej_cuerpo\<lparr>b_motivo := JUndefined\<rparr>))
   \<and> truthy (b_email (ej_cuerpo\<lparr>b_motivo := JUndefined\<rparr>))
   \<and> truthy (b_telefono (ej_cuerpo\<lparr>b_motivo := JUndefined\<rparr>))
   \<and> truthy (b_fecha (ej_cuerpo\<lparr>b_motivo := JUndefined\<rparr>))
   \<and> truthy (b_hora (ej_cuerpo\<lparr>b_motivo := JUndefined\<rparr>))
   \<and> averia ej_bd_vacia = None \<and> filas ej_bd_vacia = []
   \<and> server_app ej_contexto (crear (ej_cuerpo\<lparr>b_motivo := JUndefined\<rparr>)) ej_bd_vacia
       = (responder 400 (ErrorJson ''Faltan campos requeridos''), ej_bd_vacia)"
  by (simp add: app_crear server_post_citas_def ej_cuerpo_def ej_bd_vacia_def)

text \<open>
  C7, amended. POST /api/citas answers 400 exactly when one of the seven fields nombre,
  apellido, email, telefono, fecha, hora, motivo is missing or otherwise falsy. Notes
  are the only optional field: with the seven fields present, a free slot and a store
  that answers, creation is 201, and absent notes are stored as NULL.
\<close>

theorem creation_needs_seven_fields:
  "(estado_http (fst (server_app ctx (crear body) b)) = 400
      \<longleftrightarrow> \<not> truthy (b_nombre body) \<or> \<not> truthy (b_apellido body) \<or> \<not> truthy (b_email body)
          \<or> \<not> truthy (b_telefono body) \<or> \<not> truthy (b_fecha body) \<or> \<not> truthy (b_hora body)
          \<or> \<not> truthy (b_motivo body))
   \<and> (campos_requeridos body \<and> averia b = None
        \<and> \<not> (\<exists>r \<in> set (filas b).
               activa_en (prepareValue (b_fecha body)) (prepareValue (b_hora body)) r)
      \<longrightarrow> server_app ctx (crear body) b
            = (responder 201 (Fila (fila_creada ctx body b)),
               b\<lparr>filas := filas b @ [fila_creada ctx body b], secuencia := Suc (secuencia b)\<rparr>)
          \<and> (\<not> truthy (b_notas body) \<longrightarrow> notas (fila_creada ctx body b) = None))"
proof (intro conjI impI)
  show "estado_http (fst (server_app ctx (crear body) b)) = 400
      \<longleftrightarrow> \<not> truthy (b_nombre body) \<or> \<not> truthy (b_apellido body) \<or> \<not> truthy (b_email body)
          \<or> \<not> truthy (b_telefono body) \<or> \<not> truthy (b_fecha body) \<or> \<not> truthy (b_hora body)
          \<or> \<not> truthy (b_motivo body)"
    by (simp add: app_crear server_post_citas_def responder_def pool_query_def insertar_cita_def
          Let_def split: option.splits)
next
  assume h: "campos_requeridos body \<and> averia b = None
        \<and> \<not> (\<exists>r \<in> set (filas b).
               activa_en (prepareValue (b_fecha body)) (prepareValue (b_hora body)) r)"
  then show "server_app ctx (crear body) b
            = (responder 201 (Fila (fila_creada ctx body b)),
               b\<lparr>filas := filas b @ [fila_creada ctx body b], secuencia := Suc (secuencia b)\<rparr>)"
    using post_resultado [of b body ctx] by (simp add: app_crear)
next
  assume "\<not> truthy (b_notas body)"
  then show "notas (fila_creada ctx body b) = None" by (simp add: fila_creada_def)
qed

theorem creation_needs_seven_fields_witness:
  "campos_requeridos ej_cuerpo \<and> averia ej_bd_vacia = None \<and> b_notas ej_cuerpo = JUndefined
   \<and> estado_http (fst (server_app ej_contexto (crear ej_cuerpo) ej_bd_vacia)) = 201
   \<and> map notas (filas (snd (server_app ej_contexto (crear ej_cuerpo) ej_bd_vacia))) = [None]
   \<and> estado_http (fst (server_app ej_contexto (crear (ej_cuerpo\<lparr>b_apellido := JNull\<rparr>))
        ej_bd_vacia)) = 400"
proof -
  have h: "campos_requeridos ej_cuerpo" "averia ej_bd_vacia = None" "b_notas ej_cuerpo = JUndefined"
    "\<not> (\<exists>r \<in> set (filas ej_bd_vacia).
               activa_en (prepareValue (b_fecha ej_cuerpo)) (prepareValue (b_hora ej_cuerpo)) r)"
    by (simp_all add: campos_requeridos_def ej_cuerpo_def ej_bd_vacia_def)
  show ?thesis
    using h creation_needs_seven_fields [of ej_contexto ej_cuerpo ej_bd_vacia]
      creation_needs_seven_fields [of ej_contexto "ej_cuerpo\<lparr>b_apellido := JNull\<rparr>" ej_bd_vacia]
    by (simp add: responder_def ej_bd_vacia_def)
qed

section \<open>The appointment time of the demo server (C8)\<close>

lemma descomposicion_aux:
  fixes t a b c d ms s m h k :: int
  assumes e1: "t = 1000 * a + ms" and e2: "a = 60 * b + s" and e3: "b = 60 * c + m"
    and e4: "c = 24 * d + h"
  shows "d * 86400000 + ((h + k) * 3600000 + m * 60000 + s * 1000 + ms) = t + k * 3600000"
  unfolding e1 e2 e3 e4 by (simp add: algebra_simps)

lemma descomposicion:
  "MakeDate (Day t) (MakeTime (HourFromTime t + k) (MinFromTime t) (SecFromTime t) (msFromTime t))
     = t + k * msPerHour"
proof -
  define a where "a = t div 1000"
  define b where "b = t div 60000"
  define c where "c = t div 3600000"
  define d where "d = t div 86400000"
  define ms where "ms = t mod 1000"
  define s where "s = a mod 60"
  define m where "m = b mod 60"
  define h where "h = c mod 24"
  have b': "b = a div 60"
    unfolding a_def b_def using zdiv_zmult2_eq [of 60 t 1000] by simp
  have c': "c = b div 60"
    unfolding b_def c_def using zdiv_zmult2_eq [of 60 t 60000] by simp
  have d': "d = c div 24"
    unfolding c_def d_def using zdiv_zmult2_eq [of 24 t 3600000] by simp
  have e1: "t = 1000 * a + ms" unfolding a_def ms_def by (rule mult_div_mod_eq [symmetric])
  have e2: "a = 60 * b + s" unfolding b' s_def by (rule mult_div_mod_eq [symmetric])
  have e3: "b = 60 * c + m" unfolding c' m_def by (rule mult_div_mod_eq [symmetric])
  have e4: "c = 24 * d + h" unfolding d' h_def by (rule mult_div_mod_eq [symmetric])
  have "d * 86400000 + ((h + k) * 3600000 + m * 60000 + s * 1000 + ms) = t + k * 3600000"
    using e1 e2 e3 e4 by (rule descomposicion_aux)
  then show ?thesis
    unfolding MakeDate_def MakeTime_def Day_def HourFromTime_def MinFromTime_def
          SecFromTime_def msFromTime_def msPerDay_def msPerHour_def msPerMinute_def
          msPerSecond_def a_def b_def c_def d_def ms_def s_def m_def h_def .
qed

lemma setHours_local:
  "setHours z t (getHours z t + k) = UTC z (LocalTime z t + k * msPerHour)"
  by (simp add: setHours_def getHours_def Let_def descomposicion)

lemma calcular_spec:
  "calcular_fechaCita z t tf
     = map_option (\<lambda>k. UTC z (LocalTime z t + k * msPerHour)) (spec_desplazamiento tf)"
  using setHours_local [of z t "- 1"]
  by (simp add: calcular_fechaCita_def spec_desplazamiento_def setHours_local)

lemma spec_desplazamiento_truthy: "spec_desplazamiento tf = Some k \<Longrightarrow> truthy tf"
  by (auto simp: spec_desplazamiento_def split: if_splits)

text \<open>
  What the handler stores. A code outside \<^verbatim>\<open>24h\<close>, \<^verbatim>\<open>2h\<close>,
  \<^verbatim>\<open>1h_pasado\<close> is answered 400 and nothing is inserted. For a code of the table,
  with the other fields present and a store that answers, the request is answered 201
  and the stored time is the instant whose local time is now's local time moved by 24,
  2 or minus 1 hours; that instant is now moved by as many hours when the zone's offset
  there equals its offset now.
\<close>

theorem fechaCita_from_offset_code:
  "(spec_desplazamiento (tipoFecha body) = None
      \<longrightarrow> estado_g (fst (gratuitas_app env (crear_g body) b)) = 400
         \<and> snd (gratuitas_app env (crear_g body) b) = b)
   \<and> (spec_desplazamiento (tipoFecha body) = Some k \<and> averia b = None
        \<and> truthy (g_nombre body) \<and> truthy (g_email body) \<and> truthy (g_telefono body)
      \<longrightarrow> gratuitas_app env (crear_g body) b
            = (responder_g 201
                 (Sobre True (Some ''Cita creada exitosamente'')
                    (Una (fila_gratuita_creada env body b
                       (UTC (zona_horaria env)
                          (LocalTime (zona_horaria env) (reloj_js env) + k * msPerHour)))) None),
               b\<lparr>filas := filas b @ [fila_gratuita_creada env body b
                       (UTC (zona_horaria env)
                          (LocalTime (zona_horaria env) (reloj_js env) + k * msPerHour))],
                 secuencia := Suc (secuencia b)\<rparr>)
         \<and> (LocalTZA_local (zona_horaria env)
                (LocalTime (zona_horaria env) (reloj_js env) + k * msPerHour)
              = LocalTZA_utc (zona_horaria env) (reloj_js env)
            \<longrightarrow> UTC (zona_horaria env)
                  (LocalTime (zona_horaria env) (reloj_js env) + k * msPerHour)
                = reloj_js env + k * msPerHour))"
proof (intro conjI impI)
  assume "spec_desplazamiento (tipoFecha body) = None"
  then show "estado_g (fst (gratuitas_app env (crear_g body) b)) = 400"
    and "snd (gratuitas_app env (crear_g body) b) = b"
    by (simp_all add: app_crear_g post_sin_webhook calcular_spec responder_g_def)
next
  assume h: "spec_desplazamiento (tipoFecha body) = Some k \<and> averia b = None
        \<and> truthy (g_nombre body) \<and> truthy (g_email body) \<and> truthy (g_telefono body)"
  then have "truthy (tipoFecha body)" by (auto dest: spec_desplazamiento_truthy)
  then show "gratuitas_app env (crear_g body) b
            = (responder_g 201
                 (Sobre True (Some ''Cita creada exitosamente'')
                    (Una (fila_gratuita_creada env body b
                       (UTC (zona_horaria env)
                          (LocalTime (zona_horaria env) (reloj_js env) + k * msPerHour)))) None),
               b\<lparr>filas := filas b @ [fila_gratuita_creada env body b
                       (UTC (zona_horaria env)
                          (LocalTime (zona_horaria env) (reloj_js env) + k * msPerHour))],
                 secuencia := Suc (secuencia b)\<rparr>)"
    using h
    by (simp add: app_crear_g post_sin_webhook calcular_spec insertar_gratuita_def pool_query_def
          Let_def fila_gratuita_creada_def)
next
  assume "LocalTZA_local (zona_horaria env)
                (LocalTime (zona_horaria env) (reloj_js env) + k * msPerHour)
              = LocalTZA_utc (zona_horaria env) (reloj_js env)"
  then show "UTC (zona_horaria env)
                  (LocalTime (zona_horaria env) (reloj_js env) + k * msPerHour)
                = reloj_js env + k * msPerHour"
    by (simp add: UTC_def LocalTime_def)
qed

theorem fechaCita_witness:
  "spec_desplazamiento (tipoFecha ej_cuerpo_g) = Some 24 \<and> averia ej_bd_g_vacia = None
   \<and> truthy (g_nombre ej_cuerpo_g) \<and> truthy (g_email ej_cuerpo_g) \<and> truthy (g_telefono ej_cuerpo_g)
   \<and> reloj_js ej_entorno + 24 * msPerHour = 1743336000000
   \<and> map fecha_cita (filas (snd (gratuitas_app ej_entorno (crear_g ej_cuerpo_g) ej_bd_g_vacia)))
       = [1743336000000]
   \<and> spec_desplazamiento (tipoFecha (ej_cuerpo_g\<lparr>tipoFecha := JStr ''3h''\<rparr>)) = None
   \<and> estado_g (fst (gratuitas_app ej_entorno (crear_g (ej_cuerpo_g\<lparr>tipoFecha := JStr ''3h''\<rparr>))
         ej_bd_g_vacia)) = 400
   \<and> snd (gratuitas_app ej_entorno (crear_g (ej_cuerpo_g\<lparr>tipoFecha := JStr ''3h''\<rparr>))
         ej_bd_g_vacia) = ej_bd_g_vacia"
proof -
  have h: "spec_desplazamiento (tipoFecha ej_cuerpo_g) = Some 24" "averia ej_bd_g_vacia = None"
    "truthy (g_nombre ej_cuerpo_g)" "truthy (g_email ej_cuerpo_g)" "truthy (g_telefono ej_cuerpo_g)"
    "spec_desplazamiento (tipoFecha (ej_cuerpo_g\<lparr>tipoFecha := JStr ''3h''\<rparr>)) = None"
    "LocalTZA_local (zona_horaria ej_entorno)
        (LocalTime (zona_horaria ej_entorno) (reloj_js ej_entorno) + 24 * msPerHour)
      = LocalTZA_utc (zona_horaria ej_entorno) (reloj_js ej_entorno)"
    "reloj_js ej_entorno + 24 * msPerHour = 1743336000000" "filas ej_bd_g_vacia = []"
    by (simp_all add: spec_desplazamiento_def ej_cuerpo_g_def ej_bd_g_vacia_def ej_entorno_def
          ej_zona_utc_def msPerHour_def)
  show ?thesis
    using h
      fechaCita_from_offset_code [where body = ej_cuerpo_g and env = ej_entorno
        and b = ej_bd_g_vacia and k = 24]
      fechaCita_from_offset_code [where body = "ej_cuerpo_g\<lparr>tipoFecha := JStr ''3h''\<rparr>"
        and env = ej_entorno and b = ej_bd_g_vacia and k = 24]
    by (simp add: fila_gratuita_creada_def)
qed

text \<open>
  C8. The claim: the stored appointment time is now plus 24 hours, now plus 2 hours or
  now minus 1 hour, by the code. The handler does not add to the instant: it sets the
  local hour, \<^verbatim>\<open>setHours(getHours() + n)\<close>. Whenever the offset of the host's zone
  at the local time so reached differs from its offset now, the request is answered
  201 and the stored instant is not the one the claim gives: it is off by the
  difference of the two offsets.
\<close>

theorem offset_codes_miss_across_clock_change:
  assumes "spec_desplazamiento (tipoFecha body) = Some k" and "averia b = None"
    and "truthy (g_nombre body)" and "truthy (g_email body)" and "truthy (g_telefono body)"
    and "LocalTZA_local (zona_horaria env)
             (LocalTime (zona_horaria env) (reloj_js env) + k * msPerHour)
           \<noteq> LocalTZA_utc (zona_horaria env) (reloj_js env)"
  shows "estado_g (fst (gratuitas_app env (crear_g body) b)) = 201
     \<and> map fecha_cita (filas (snd (gratuitas_app env (crear_g body) b)))
         = map fecha_cita (filas b)
           @ [reloj_js env + k * msPerHour
              + LocalTZA_utc (zona_horaria env) (reloj_js env)
              - LocalTZA_local (zona_horaria env)
                  (LocalTime (zona_horaria env) (reloj_js env) + k * msPerHour)]
     \<and> map fecha_cita (filas (snd (gratuitas_app env (crear_g body) b)))
         \<noteq> map fecha_cita (filas b) @ [reloj_js env + k * msPerHour]"
proof -
  have t: "truthy (tipoFecha body)" using assms(1) by (auto dest: spec_desplazamiento_truthy)
  have e: "gratuitas_app env (crear_g body) b
            = (responder_g 201
                 (Sobre True (Some ''Cita creada exitosamente'')
                    (Una (fila_gratuita_creada env body b
                       (UTC (zona_horaria env)
                          (LocalTime (zona_horaria env) (reloj_js env) + k * msPerHour)))) None),
               b\<lparr>filas := filas b @ [fila_gratuita_creada env body b
                       (UTC (zona_horaria env)
                          (LocalTime (zona_horaria env) (reloj_js env) + k * msPerHour))],
                 secuencia := Suc (secuencia b)\<rparr>)"
    using assms(1-5) t
    by (simp add: app_crear_g post_sin_webhook calcular_spec insertar_gratuita_def pool_query_def
          Let_def fila_gratuita_creada_def)
  show ?thesis
    using assms(6)
    by (simp add: e responder_g_def fila_gratuita_creada_def UTC_def LocalTime_def)
qed

text \<open>
  On a host in the zone of Madrid, around the night of 30 March 2025 in which the
  clocks go forward: at noon of the day before, the code \<^verbatim>\<open>24h\<close> stores now plus
  23 hours; at 01:00 local time the code \<^verbatim>\<open>2h\<close> stores now plus 1 hour; at 03:30
  local time the code \<^verbatim>\<open>1h_pasado\<close> stores now.
\<close>

theorem dst_shortens_long_lead:
  "tipoFecha ej_cuerpo_g = JStr ''24h''
   \<and> reloj_js (ej_entorno\<lparr>zona_horaria := ej_zona_madrid\<rparr>) + 24 * msPerHour = 1743336000000
   \<and> estado_g (fst (gratuitas_app (ej_entorno\<lparr>zona_horaria := ej_zona_madrid\<rparr>)
        (crear_g ej_cuerpo_g) ej_bd_g_vacia)) = 201
   \<and> map fecha_cita (filas (snd (gratuitas_app (ej_entorno\<lparr>zona_horaria := ej_zona_madrid\<rparr>)
        (crear_g ej_cuerpo_g) ej_bd_g_vacia))) = [1743332400000]
   \<and> map fecha_cita (filas (snd (gratuitas_app (ej_entorno\<lparr>zona_horaria := ej_zona_madrid\<rparr>)
        (crear_g ej_cuerpo_g) ej_bd_g_vacia)))
       \<noteq> [reloj_js (ej_entorno\<lparr>zona_horaria := ej_zona_madrid\<rparr>) + 24 * msPerHour]
   \<and> map fecha_cita (filas (snd (gratuitas_app
        (ej_entorno\<lparr>reloj_js := 1743292800000, zona_horaria := ej_zona_madrid\<rparr>)
        (crear_g (ej_cuerpo_g\<lparr>tipoFecha := JStr ''2h''\<rparr>)) ej_bd_g_vacia)))
       = [1743292800000 + 1 * msPerHour]
   \<and> map fecha_cita (filas (snd (gratuitas_app
        (ej_entorno\<lparr>reloj_js := 1743298200000, zona_horaria := ej_zona_madrid\<rparr>)
        (crear_g (ej_cuerpo_g\<lparr>tipoFecha := JStr ''1h_pasado''\<rparr>)) ej_bd_g_vacia)))
       = [1743298200000]"
proof -
  have c: "averia ej_bd_g_vacia = None" "filas ej_bd_g_vacia = []"
      "truthy (g_nombre ej_cuerpo_g)" "truthy (g_email ej_cuerpo_g)"
      "truthy (g_telefono ej_cuerpo_g)"
    by (simp_all add: ej_bd_g_vacia_def ej_cuerpo_g_def)
  have a: "spec_desplazamiento (tipoFecha ej_cuerpo_g) = Some 24"
      "tipoFecha ej_cuerpo_g = JStr ''24h''"
      "reloj_js (ej_entorno\<lparr>zona_horaria := ej_zona_madrid\<rparr>) = 1743249600000"
      "LocalTZA_utc (zona_horaria (ej_entorno\<lparr>zona_horaria := ej_zona_madrid\<rparr>))
         (reloj_js (ej_entorno\<lparr>zona_horaria := ej_zona_madrid\<rparr>)) = 3600000"
      "LocalTZA_local (zona_horaria (ej_entorno\<lparr>zona_horaria := ej_zona_madrid\<rparr>))
         (LocalTime (zona_horaria (ej_entorno\<lparr>zona_horaria := ej_zona_madrid\<rparr>))
            (reloj_js (ej_entorno\<lparr>zona_horaria := ej_zona_madrid\<rparr>)) + 24 * msPerHour)
        = 7200000"
    by (simp_all add: spec_desplazamiento_def ej_cuerpo_g_def ej_entorno_def ej_zona_madrid_def
          LocalTime_def msPerHour_def)
  have t1: "estado_g (fst (gratuitas_app (ej_entorno\<lparr>zona_horaria := ej_zona_madrid\<rparr>)
        (crear_g ej_cuerpo_g) ej_bd_g_vacia)) = 201
     \<and> map fecha_cita (filas (snd (gratuitas_app (ej_entorno\<lparr>zona_horaria := ej_zona_madrid\<rparr>)
        (crear_g ej_cuerpo_g) ej_bd_g_vacia))) = [1743332400000]"
    using offset_codes_miss_across_clock_change [where body = ej_cuerpo_g and k = 24
        and b = ej_bd_g_vacia and env = "ej_entorno\<lparr>zona_horaria := ej_zona_madrid\<rparr>"]
      c a
    by (simp add: msPerHour_def)
  have b2: "spec_desplazamiento (tipoFecha (ej_cuerpo_g\<lparr>tipoFecha := JStr ''2h''\<rparr>)) = Some 2"
      "truthy (g_nombre (ej_cuerpo_g\<lparr>tipoFecha := JStr ''2h''\<rparr>))"
      "truthy (g_email (ej_cuerpo_g\<lparr>tipoFecha := JStr ''2h''\<rparr>))"
      "truthy (g_telefono (ej_cuerpo_g\<lparr>tipoFecha := JStr ''2h''\<rparr>))"
      "reloj_js (ej_entorno\<lparr>reloj_js := 1743292800000, zona_horaria := ej_zona_madrid\<rparr>)
         = 1743292800000"
      "LocalTZA_utc (zona_horaria (ej_entorno\<lparr>reloj_js := 1743292800000, zona_horaria := ej_zona_madrid\<rparr>))
         1743292800000 = 3600000"
      "LocalTZA_local (zona_horaria (ej_entorno\<lparr>reloj_js := 1743292800000, zona_horaria := ej_zona_madrid\<rparr>))
         (LocalTime (zona_horaria (ej_entorno\<lparr>reloj_js := 1743292800000, zona_horaria := ej_zona_madrid\<rparr>))
            1743292800000 + 2 * msPerHour)
        = 7200000"
    by (simp_all add: spec_desplazamiento_def ej_cuerpo_g_def ej_entorno_def ej_zona_madrid_def
          LocalTime_def msPerHour_def)
  have t2: "map fecha_cita (filas (snd (gratuitas_app
        (ej_entorno\<lparr>reloj_js := 1743292800000, zona_horaria := ej_zona_madrid\<rparr>)
        (crear_g (ej_cuerpo_g\<lparr>tipoFecha := JStr ''2h''\<rparr>)) ej_bd_g_vacia)))
       = [1743292800000 + 1 * msPerHour]"
    using offset_codes_miss_across_clock_change [where body = "ej_cuerpo_g\<lparr>tipoFecha := JStr ''2h''\<rparr>"
        and k = 2 and b = ej_bd_g_vacia
        and env = "ej_entorno\<lparr>reloj_js := 1743292800000, zona_horaria := ej_zona_madrid\<rparr>"]
      c b2
    by (simp add: msPerHour_def)
  have b3: "spec_desplazamiento (tipoFecha (ej_cuerpo_g\<lparr>tipoFecha := JStr ''1h_pasado''\<rparr>)) = Some (- 1)"
      "truthy (g_nombre (ej_cuerpo_g\<lparr>tipoFecha := JStr ''1h_pasado''\<rparr>))"
      "truthy (g_email (ej_cuerpo_g\<lparr>tipoFecha := JStr ''1h_pasado''\<rparr>))"
      "truthy (g_telefono (ej_cuerpo_g\<lparr>tipoFecha := JStr ''1h_pasado''\<rparr>))"
      "reloj_js (ej_entorno\<lparr>reloj_js := 1743298200000, zona_horaria := ej_zona_madrid\<rparr>)
         = 1743298200000"
      "LocalTZA_utc (zona_horaria (ej_entorno\<lparr>reloj_js := 1743298200000, zona_horaria := ej_zona_madrid\<rparr>))
         1743298200000 = 7200000"
      "LocalTZA_local (zona_horaria (ej_entorno\<lparr>reloj_js := 1743298200000, zona_horaria := ej_zona_madrid\<rparr>))
         (LocalTime (zona_horaria (ej_entorno\<lparr>reloj_js := 1743298200000, zona_horaria := ej_zona_madrid\<rparr>))
            1743298200000 + (- 1) * msPerHour)
        = 3600000"
    by (simp_all add: spec_desplazamiento_def ej_cuerpo_g_def ej_entorno_def ej_zona_madrid_def
          LocalTime_def msPerHour_def)
  have t3: "map fecha_cita (filas (snd (gratuitas_app
        (ej_entorno\<lparr>reloj_js := 1743298200000, zona_horaria := ej_zona_madrid\<rparr>)
        (crear_g (ej_cuerpo_g\<lparr>tipoFecha := JStr ''1h_pasado''\<rparr>)) ej_bd_g_vacia)))
       = [1743298200000]"
    using offset_codes_miss_across_clock_change [where body = "ej_cuerpo_g\<lparr>tipoFecha := JStr ''1h_pasado''\<rparr>"
        and k = "- 1" and b = ej_bd_g_vacia
        and env = "ej_entorno\<lparr>reloj_js := 1743298200000, zona_horaria := ej_zona_madrid\<rparr>"]
      c b3
    by (simp add: msPerHour_def)
  show ?thesis
    using a(2,3) t1 t2 t3 by (simp add: msPerHour_def)
qed

section \<open>The update timestamp (C9)\<close>

lemma reemplazar_campos:
  "fecha_actualizacion (reemplazar ctx ps r) = Some (current_timestamp ctx)"
  "id_cita (reemplazar ctx ps r) = id_cita r"
  by (simp_all add: reemplazar_def)

lemma cancelar_campos:
  "fecha_actualizacion (cancelar ctx r) = Some (current_timestamp ctx)"
  "id_cita (cancelar ctx r) = id_cita r"
  by (simp_all add: cancelar_def)

lemma en_map_si:
  assumes "r \<in> set (map (\<lambda>x. if id_cita x = i then f x else x) rows)" and "id_cita r = i"
    and "\<And>x. id_cita (f x) = id_cita x"
  shows "\<exists>x. r = f x"
  using assms by (auto split: if_splits)

lemma reset_flags_idem [simp]: "reset_flags (reset_flags r) = reset_flags r"
  by (simp add: reset_flags_def)

lemma set_true_reset: "set_true c = Some f \<Longrightarrow> reset_flags (f r) = reset_flags r"
  by (auto simp: set_true_def reset_flags_def split: if_splits)

lemma update_gratuita_filas:
  "update_gratuita_donde_id b idp f = Inr (rows, b') \<Longrightarrow>
     \<exists>i. filas b' = map (\<lambda>r. if id_gratuita r = i then f r else r) (filas b)"
  by (auto simp: update_gratuita_donde_id_def con_id_def split: option.splits)

lemma map_reset_si:
  "(\<And>r. reset_flags (f r) = reset_flags r) \<Longrightarrow>
   map reset_flags (map (\<lambda>r. if id_gratuita r = i then f r else r) rows) = map reset_flags rows"
  by (induction rows) auto

lemma reset_flags_marco:
  "map reset_flags (filas (snd (gratuitas_reset_flags idp b))) = map reset_flags (filas b)"
proof (cases "update_gratuita_donde_id b idp reset_flags")
  case (Inl e)
  then show ?thesis by (simp add: gratuitas_reset_flags_def)
next
  case (Inr x)
  obtain rows b' where x: "x = (rows, b')" by (cases x)
  from update_gratuita_filas [OF Inr [unfolded x]] obtain i where
    "filas b' = map (\<lambda>r. if id_gratuita r = i then reset_flags r else r) (filas b)" by blast
  moreover have "snd (gratuitas_reset_flags idp b) = b'"
    using Inr x by (simp add: gratuitas_reset_flags_def split: list.splits)
  ultimately show ?thesis by (simp add: map_reset_si)
qed

lemma marcar_marco:
  "map reset_flags (filas (snd (gratuitas_marcar_recordatorio idp body b)))
     = map reset_flags (filas b)"
proof (cases "\<not> truthy (tipo body) \<or> tipo body \<notin> set [JStr ''24h'', JStr ''2h'', JStr ''post'']")
  case True
  then show ?thesis by (simp add: gratuitas_marcar_recordatorio_def)
next
  case False
  define columna where "columna = ''recordatorio_''
               @ (if tipo body = JStr ''24h'' then ''24h''
                  else if tipo body = JStr ''2h'' then ''2h'' else ''post'')
               @ ''_enviado''"
  show ?thesis
  proof (cases "set_true columna :: ('a cita_gratuita_scheme \<Rightarrow> 'a cita_gratuita_scheme) option")
    case None
    then show ?thesis
      using False by (simp add: gratuitas_marcar_recordatorio_def columna_def Let_def)
  next
    case (Some f)
    show ?thesis
    proof (cases "update_gratuita_donde_id b idp f")
      case (Inl e)
      then show ?thesis
        using False Some by (simp add: gratuitas_marcar_recordatorio_def columna_def Let_def)
    next
      case (Inr x)
      obtain rows b' where x: "x = (rows, b')" by (cases x)
      from update_gratuita_filas [OF Inr [unfolded x]] obtain i where
        "filas b' = map (\<lambda>r. if id_gratuita r = i then f r else r) (filas b)" by blast
      moreover have "snd (gratuitas_marcar_recordatorio idp body b) = b'"
        using False Some Inr x
        by (simp add: gratuitas_marcar_recordatorio_def columna_def Let_def split: list.splits)
      ultimately show ?thesis by (simp add: map_reset_si set_true_reset [OF Some])
    qed
  qed
qed

lemma reset_all_marco:
  "map reset_flags (filas (snd (gratuitas_reset_flags_all b))) = map reset_flags (filas b)"
  by (simp add: gratuitas_reset_flags_all_def pool_query_def split: option.splits)

lemma patch_marco:
  assumes "metodo_http req = PATCH"
  shows "map reset_flags (filas (snd (gratuitas_app env req b))) = map reset_flags (filas b)"
proof (cases "despachar gratuitas_rutas (metodo_http req) (ruta req)
    :: ('a entorno \<Rightarrow> cuerpo_gratuita \<Rightarrow> 'a bd_g \<Rightarrow> 'a resp_g \<times> 'a bd_g) option")
  case None
  then show ?thesis by (simp add: gratuitas_app_def)
next
  case (Some h)
  then obtain pat hf v where
    e: "(metodo_http req, pat, hf) \<in> set gratuitas_rutas" "h = hf v"
    using despachar_en_tabla [OF Some] by auto
  have app: "gratuitas_app env req b = hf v env (cuerpo req) b"
    by (simp add: gratuitas_app_def Some e(2))
  from e(1) assms consider
      "hf v env (cuerpo req) b = gratuitas_reset_flags v b"
    | "hf v env (cuerpo req) b = gratuitas_marcar_recordatorio v (cuerpo req) b"
    | "hf v env (cuerpo req) b = gratuitas_reset_flags_all b"
    by (auto simp: gratuitas_rutas_def)
  then show ?thesis
    by cases (simp_all add: app reset_flags_marco marcar_marco reset_all_marco)
qed

text \<open>
  C9, as stated, fails for the flag operations: their UPDATE statements name the
  reminder columns only. On a table with an update timestamp, setting a flag,
  resetting the flags of one appointment and resetting all flags each leave the stamp
  of the row as it was.
\<close>

theorem flag_operations_keep_stamp:
  "now_bd ej_entorno_sellado = 1743249600000
   \<and> map fecha_actualizacion_g (filas ej_bd_sellada) = [1743000000000]
   \<and> estado_g (fst (gratuitas_app ej_entorno_sellado (marcar_g ''1'' ej_cuerpo_g) ej_bd_sellada)) = 200
   \<and> map recordatorio_2h_enviado
        (filas (snd (gratuitas_app ej_entorno_sellado (marcar_g ''1'' ej_cuerpo_g) ej_bd_sellada)))
       = [True]
   \<and> map fecha_actualizacion_g
        (filas (snd (gratuitas_app ej_entorno_sellado (marcar_g ''1'' ej_cuerpo_g) ej_bd_sellada)))
       = [1743000000000]
   \<and> estado_g (fst (gratuitas_app ej_entorno_sellado (reset_g ''1'' ej_cuerpo_g) ej_bd_sellada)) = 200
   \<and> map recordatorio_24h_enviado
        (filas (snd (gratuitas_app ej_entorno_sellado (reset_g ''1'' ej_cuerpo_g) ej_bd_sellada)))
       = [False]
   \<and> map fecha_actualizacion_g
        (filas (snd (gratuitas_app ej_entorno_sellado (reset_g ''1'' ej_cuerpo_g) ej_bd_sellada)))
       = [1743000000000]
   \<and> estado_g (fst (gratuitas_app ej_entorno_sellado (reset_todas_g ej_cuerpo_g) ej_bd_sellada)) = 200
   \<and> map fecha_actualizacion_g
        (filas (snd (gratuitas_app ej_entorno_sellado (reset_todas_g ej_cuerpo_g) ej_bd_sellada)))
       = [1743000000000]"
  by (simp add: gratuitas_app_def gratuitas_rutas_def marcar_g_def reset_g_def reset_todas_g_def
        gratuitas_marcar_recordatorio_def gratuitas_reset_flags_def gratuitas_reset_flags_all_def
        update_gratuita_donde_id_def con_id_def parse_id_ejemplos set_true_def pool_query_def
        reset_flags_def responder_g_def ej_entorno_sellado_def ej_bd_sellada_def
        ej_fila_sellada_def ej_cuerpo_g_def)

text \<open>
  C9, amended. In server.js an update and a cancellation set the update timestamp of
  every row they touch to the current timestamp. In the demo server every PATCH
  request (set a flag, reset the flags of one appointment, reset all flags) leaves
  all columns of all rows but the three reminder booleans as they were.
\<close>

theorem updated_at_refreshed_by_update_and_cancel_only:
  "(averia b = None \<and> parse_id idp = Some i
      \<longrightarrow> (\<forall>r \<in> set (filas (snd (server_app ctx (actualizar idp body) b))).
             id_cita r = i \<longrightarrow> fecha_actualizacion r = Some (current_timestamp ctx))
         \<and> (\<forall>r \<in> set (filas (snd (server_app ctx (cancelar_id idp body) b))).
             id_cita r = i \<longrightarrow> fecha_actualizacion r = Some (current_timestamp ctx)))
   \<and> (metodo_http req = PATCH
      \<longrightarrow> map reset_flags (filas (snd (gratuitas_app env req bg))) = map reset_flags (filas bg))"
proof (intro conjI impI ballI)
  fix r
  assume h: "averia b = None \<and> parse_id idp = Some i"
    and r: "r \<in> set (filas (snd (server_app ctx (actualizar idp body) b)))" and k: "id_cita r = i"
  from h have idp: "idp \<noteq> []" by (auto dest: parse_id_no_vacio)
  define ps where "ps = map prepareValue
                     [b_nombre body, b_apellido body, b_email body, b_telefono body,
                      b_fecha body, b_hora body, b_motivo body, b_notas body, b_estado body]"
  have "filas (snd (server_app ctx (actualizar idp body) b))
      = map (\<lambda>x. if id_cita x = i then reemplazar ctx ps x else x) (filas b)"
    using h put_resultado [of b idp i ctx body] by (simp add: app_actualizar [OF idp] ps_def)
  with r k have "\<exists>x. r = reemplazar ctx ps x"
    by (intro en_map_si [where rows = "filas b" and i = i]) (simp_all add: reemplazar_campos)
  then show "fecha_actualizacion r = Some (current_timestamp ctx)"
    by (auto simp: reemplazar_campos)
next
  fix r
  assume h: "averia b = None \<and> parse_id idp = Some i"
    and r: "r \<in> set (filas (snd (server_app ctx (cancelar_id idp body) b)))" and k: "id_cita r = i"
  from h have idp: "idp \<noteq> []" by (auto dest: parse_id_no_vacio)
  have "filas (snd (server_app ctx (cancelar_id idp body) b))
      = map (\<lambda>x. if id_cita x = i then cancelar ctx x else x) (filas b)"
    using h delete_resultado [of b idp i ctx] by (simp add: app_cancelar [OF idp])
  with r k have "\<exists>x. r = cancelar ctx x"
    by (intro en_map_si [where rows = "filas b" and i = i]) (simp_all add: cancelar_campos)
  then show "fecha_actualizacion r = Some (current_timestamp ctx)"
    by (auto simp: cancelar_campos)
next
  assume "metodo_http req = PATCH"
  then show "map reset_flags (filas (snd (gratuitas_app env req bg))) = map reset_flags (filas bg)"
    by (rule patch_marco)
qed

theorem updated_at_witness:
  "averia ej_bd = None \<and> parse_id ''2'' = Some 2
   \<and> map fecha_actualizacion (filas ej_bd) = [Some 1748700000000, Some 1748600000000, Some 1748600000000]
   \<and> current_timestamp ej_contexto = 1748772000000
   \<and> map fecha_actualizacion (filas (snd (server_app ej_contexto (actualizar ''2'' ej_cuerpo) ej_bd)))
       = [Some 1748700000000, Some 1748772000000, Some 1748600000000]
   \<and> map fecha_actualizacion (filas (snd (server_app ej_contexto (cancelar_id ''2'' ej_cuerpo) ej_bd)))
       = [Some 1748700000000, Some 1748772000000, Some 1748600000000]
   \<and> metodo_http (marcar_g ''1'' ej_cuerpo_g) = PATCH
   \<and> map reset_flags (filas (snd (gratuitas_app ej_entorno_sellado (marcar_g ''1'' ej_cuerpo_g)
        ej_bd_sellada))) = map reset_flags (filas ej_bd_sellada)"
proof -
  have h: "averia ej_bd = None" "parse_id ''2'' = Some 2"
    "metodo_http (marcar_g ''1'' ej_cuerpo_g) = PATCH"
    by (simp_all add: ej_bd_def parse_id_ejemplos marcar_g_def)
  have e: "map fecha_actualizacion (filas ej_bd)
        = [Some 1748700000000, Some 1748600000000, Some 1748600000000]"
      "current_timestamp ej_contexto = 1748772000000"
      "map fecha_actualizacion (filas (snd (server_app ej_contexto (actualizar ''2'' ej_cuerpo) ej_bd)))
        = [Some 1748700000000, Some 1748772000000, Some 1748600000000]"
      "map fecha_actualizacion (filas (snd (server_app ej_contexto (cancelar_id ''2'' ej_cuerpo) ej_bd)))
        = [Some 1748700000000, Some 1748772000000, Some 1748600000000]"
    by (simp_all add: app_actualizar app_cancelar server_put_cita_def server_delete_cita_def
          update_donde_id_def con_id_def parse_id_ejemplos reemplazar_def cancelar_def
          ej_bd_def ej_cita_1_def ej_cita_2_def ej_cita_3_def ej_contexto_def)
  show ?thesis
    using h e
      updated_at_refreshed_by_update_and_cancel_only [where b = ej_bd and idp = "''2''" and i = 2
        and ctx = ej_contexto and body = ej_cuerpo and req = "marcar_g ''1'' ej_cuerpo_g"
        and env = ej_entorno_sellado and bg = ej_bd_sellada]
    by simp
qed

section \<open>Listing by date (C10)\<close>

text \<open>
  C10. GET /api/citas/fecha/:fecha has no status filter: for every date text the
  answer has status 200 and its body is exactly the rows of that date (as a multiset:
  each row once for each time it is stored, cancelled ones included), in ascending
  order of the time column; the store is unchanged.
\<close>

theorem by_date_lists_every_status:
  assumes "averia b = None" and "d \<noteq> []"
  shows "\<exists>rows. server_app ctx \<lparr>metodo_http = GET, ruta = [''api'', ''citas'', ''fecha'', d],
                    cuerpo = body\<rparr> b = (responder 200 (Filas rows), b)
     \<and> estado_http (fst (server_app ctx \<lparr>metodo_http = GET,
           ruta = [''api'', ''citas'', ''fecha'', d], cuerpo = body\<rparr> b)) = 200
     \<and> json (fst (server_app ctx \<lparr>metodo_http = GET,
           ruta = [''api'', ''citas'', ''fecha'', d], cuerpo = body\<rparr> b)) = Filas rows
     \<and> mset rows = {#r \<in># mset (filas b). fecha r = Some d#}
     \<and> sorted (map (\<lambda>r. clave_orden (hora r)) rows)"
proof -
  have e: "server_app ctx \<lparr>metodo_http = GET, ruta = [''api'', ''citas'', ''fecha'', d], cuerpo = body\<rparr> b
      = (responder 200 (Filas (sort_key (\<lambda>r. clave_orden (hora r))
           (filter (\<lambda>r. fecha r = Some d) (filas b)))), b)"
    using assms
    by (simp add: server_app_def despachar_fecha server_get_citas_fecha_def pool_query_def sql_eq_Some)
  show ?thesis
  proof (intro exI conjI)
    show "server_app ctx \<lparr>metodo_http = GET, ruta = [''api'', ''citas'', ''fecha'', d], cuerpo = body\<rparr> b
      = (responder 200 (Filas (sort_key (\<lambda>r. clave_orden (hora r))
           (filter (\<lambda>r. fecha r = Some d) (filas b)))), b)"
      by (rule e)
    show "estado_http (fst (server_app ctx \<lparr>metodo_http = GET,
           ruta = [''api'', ''citas'', ''fecha'', d], cuerpo = body\<rparr> b)) = 200"
      by (simp add: e responder_def)
    show "json (fst (server_app ctx \<lparr>metodo_http = GET,
           ruta = [''api'', ''citas'', ''fecha'', d], cuerpo = body\<rparr> b))
        = Filas (sort_key (\<lambda>r. clave_orden (hora r)) (filter (\<lambda>r. fecha r = Some d) (filas b)))"
      by (simp add: e responder_def)
    show "mset (sort_key (\<lambda>r. clave_orden (hora r)) (filter (\<lambda>r. fecha r = Some d) (filas b)))
        = {#r \<in># mset (filas b). fecha r = Some d#}"
      by simp
    show "sorted (map (\<lambda>r. clave_orden (hora r))
        (sort_key (\<lambda>r. clave_orden (hora r)) (filter (\<lambda>r. fecha r = Some d) (filas b))))"
      by simp
  qed
qed

theorem by_date_witness:
  "averia ej_bd = None
   \<and> server_app ej_contexto \<lparr>metodo_http = GET, ruta = [''api'', ''citas'', ''fecha'', ''2025-06-01''],
        cuerpo = ej_cuerpo\<rparr> ej_bd = (responder 200 (Filas [ej_cita_2, ej_cita_1]), ej_bd)
   \<and> estado_http (fst (server_app ej_contexto \<lparr>metodo_http = GET,
        ruta = [''api'', ''citas'', ''fecha'', ''2025-06-01''], cuerpo = ej_cuerpo\<rparr> ej_bd)) = 200
   \<and> json (fst (server_app ej_contexto \<lparr>metodo_http = GET,
        ruta = [''api'', ''citas'', ''fecha'', ''2025-06-01''], cuerpo = ej_cuerpo\<rparr> ej_bd))
      = Filas [ej_cita_2, ej_cita_1]
   \<and> estado ej_cita_1 = Some ''cancelada''"
proof -
  have h: "averia ej_bd = None" by (simp add: ej_bd_def)
  have d: "''2025-06-01'' \<noteq> []" by simp
  show ?thesis
    using h by_date_lists_every_status [OF h d, of ej_contexto ej_cuerpo]
    by (simp add: server_app_def despachar_fecha server_get_citas_fecha_def pool_query_def
          ej_bd_def ej_cita_1_def ej_cita_2_def ej_cita_3_def responder_def)
qed

end
